theory Spec2Isabelle
  imports Complex_Main "HOL-Library.Word" "HOL-Library.Sublist"
begin

section \<open>Base64 transport encoding of audio buffers\<close>

text \<open>
  Audio travels inside JSON as base64 text. The clients convert with two helpers that
  occur, textually identical, in \<open>GeminiClient\<close>, in \<open>OpenAIRealtimeClient\<close>, in
  \<open>audio-utils.ts\<close> and in the application component:
  \<^verbatim>\<open>
  arrayBufferToBase64(buffer) {
    const bytes = new Uint8Array(buffer); let binary = '';
    for (let i = 0; i < bytes.byteLength; i++) binary += String.fromCharCode(bytes[i]);
    return btoa(binary);
  }
  base64ToArrayBuffer(base64) {
    const binaryString = atob(base64);
    const bytes = new Uint8Array(binaryString.length);
    for (let i = 0; i < binaryString.length; i++) bytes[i] = binaryString.charCodeAt(i);
    return bytes.buffer;
  }
  \<close>
  A byte is an \<open>8 word\<close>. A binary string (every code unit below 256) is a \<open>string\<close>:
  an Isabelle \<open>char\<close> is exactly one such code unit, so the case in which \<open>btoa\<close>
  throws (a code unit above 255) does not arise. \<open>btoa\<close> and \<open>atob\<close> are
  primitives of the browser, not code of the repository; they are modelled after their
  definition in the HTML Standard: \<open>btoa\<close> is the base64 encoding of RFC 4648 with
  padding, \<open>atob\<close> is the forgiving-base64 decoding, which throws on malformed input
  (the value \<open>None\<close> here).
\<close>

type_synonym byte = "8 word"

definition base64_alphabet :: string where
  "base64_alphabet =
     ''ABCDEFGHIJKLMNOPQRSTUVWXYZabcdefghijklmnopqrstuvwxyz0123456789+/''"

definition sextet_char :: "nat \<Rightarrow> char" where
  "sextet_char n = base64_alphabet ! n"

fun index_of :: "'a \<Rightarrow> 'a list \<Rightarrow> nat option" where
  "index_of x [] = None"
| "index_of x (y # ys) = (if x = y then Some 0 else map_option Suc (index_of x ys))"

definition sextet_of :: "char \<Rightarrow> nat option" where
  "sextet_of c = index_of c base64_alphabet"

text \<open>
  Encoding: every three bytes give four sextets; a tail of two bytes gives three sextets
  and one \<open>=\<close>, a tail of one byte gives two sextets and two \<open>=\<close>.
\<close>

fun encode_groups :: "nat list \<Rightarrow> string" where
  "encode_groups (a # b # c # rest) =
     sextet_char (a div 4) # sextet_char ((a mod 4) * 16 + b div 16) #
     sextet_char ((b mod 16) * 4 + c div 64) # sextet_char (c mod 64) # encode_groups rest"
| "encode_groups [a, b] =
     [sextet_char (a div 4), sextet_char ((a mod 4) * 16 + b div 16),
      sextet_char ((b mod 16) * 4), CHR ''='']"
| "encode_groups [a] =
     [sextet_char (a div 4), sextet_char ((a mod 4) * 16), CHR ''='', CHR ''='']"
| "encode_groups [] = []"

definition btoa :: "string \<Rightarrow> string" where
  "btoa binary = encode_groups (map of_char binary)"

text \<open>
  Decoding, in the steps of the standard: remove ASCII whitespace; if the length is a
  multiple of four, remove one or two trailing \<open>=\<close>; fail if the length is then 1 modulo
  4; fail on a character outside the alphabet; then shift the sextets through a bit
  buffer that is emptied into three bytes whenever it holds 24 bits. A remainder of 12
  bits gives one byte (the last four bits are dropped), one of 18 bits gives two bytes
  (the last two bits are dropped).
\<close>

definition ascii_whitespace :: "char \<Rightarrow> bool" where
  "ascii_whitespace c = (of_char c \<in> {9, 10, 12, 13, 32 :: nat})"

definition strip_padding :: "string \<Rightarrow> string" where
  "strip_padding d =
     (if length d mod 4 = 0 \<and> d \<noteq> [] \<and> last d = CHR ''='' then
        (let d' = butlast d in
         if d' \<noteq> [] \<and> last d' = CHR ''='' then butlast d' else d')
      else d)"

fun decode_loop :: "string \<Rightarrow> nat \<Rightarrow> nat \<Rightarrow> nat list \<Rightarrow> nat list option" where
  "decode_loop [] buf bits out =
     (if bits = 12 then Some (out @ [buf div 16])
      else if bits = 18 then Some (out @ [buf div 4 div 256, buf div 4 mod 256])
      else Some out)"
| "decode_loop (c # cs) buf bits out =
     (case sextet_of c of
        None \<Rightarrow> None
      | Some v \<Rightarrow>
          (let buf' = buf * 64 + v; bits' = bits + 6 in
           if bits' = 24
           then decode_loop cs 0 0 (out @ [buf' div 65536, buf' div 256 mod 256, buf' mod 256])
           else decode_loop cs buf' bits' out))"

definition atob :: "string \<Rightarrow> string option" where
  "atob data =
     (let d = strip_padding (filter (\<lambda>c. \<not> ascii_whitespace c) data) in
      if length d mod 4 = 1 then None
      else if list_ex (\<lambda>c. sextet_of c = None) d then None
      else map_option (map char_of) (decode_loop d 0 0 []))"

definition arrayBufferToBase64 :: "byte list \<Rightarrow> string" where
  "arrayBufferToBase64 buffer = btoa (map (\<lambda>b. char_of (unat b)) buffer)"

definition base64ToArrayBuffer :: "string \<Rightarrow> byte list option" where
  "base64ToArrayBuffer base64 =
     (case atob base64 of
        None \<Rightarrow> None
      | Some binaryString \<Rightarrow> Some (map (\<lambda>c. word_of_nat (of_char c)) binaryString))"

text \<open>Two auxiliary notions for reasoning about the codec: the encoding without its
  padding, and the removal of trailing \<open>=\<close> without the length test.\<close>

fun encode_nopad :: "nat list \<Rightarrow> string" where
  "encode_nopad (a # b # c # rest) =
     sextet_char (a div 4) # sextet_char ((a mod 4) * 16 + b div 16) #
     sextet_char ((b mod 16) * 4 + c div 64) # sextet_char (c mod 64) # encode_nopad rest"
| "encode_nopad [a, b] =
     [sextet_char (a div 4), sextet_char ((a mod 4) * 16 + b div 16),
      sextet_char ((b mod 16) * 4)]"
| "encode_nopad [a] = [sextet_char (a div 4), sextet_char ((a mod 4) * 16)]"
| "encode_nopad [] = []"

definition strip_eq :: "string \<Rightarrow> string" where
  "strip_eq d =
     (if d \<noteq> [] \<and> last d = CHR ''='' then
        (let d' = butlast d in
         if d' \<noteq> [] \<and> last d' = CHR ''='' then butlast d' else d')
      else d)"

section \<open>The OpenAI realtime client (\<open>OpenAIRealtimeClient\<close>)\<close>

text \<open>
  One class serves both transports: \<open>connectionType\<close> is \<open>'webrtc'\<close> (the media-track
  transport) or \<open>'websocket'\<close> (the message-stream transport). The client holds nullable
  references to browser objects. An object is represented by what the client reads from
  it: the \<open>readyState\<close> of a socket or of a data channel, nothing of a peer connection or
  of an audio element. Everything the client does to the outside (events it emits, HTTP
  requests, objects it creates and closes, messages it sends) is appended to \<open>trace\<close>, in
  program order. Console output is not modelled.
\<close>

datatype status = Connected | Disconnected | Connecting

datatype connection_type = WebRTC | WebSocket

datatype ready_state = CONNECTING | OPEN | CLOSING | CLOSED

datatype json = JNull | JBool bool | JNum int | JStr string | JArr "json list"
  | JObj "(string \<times> json) list"

datatype rtc_peer_connection = RTCPeerConnection

datatype html_audio_element = HTMLAudioElement

text \<open>\<open>config: any\<close>; the client reads \<open>config.voice\<close> and \<open>config.instructions\<close>.\<close>

record realtime_config =
  voice :: "string option"
  instructions :: "string option"

text \<open>\<open>x || d\<close> on an optional string: \<open>undefined\<close> and the empty string are falsy.\<close>

definition truthy :: "string option \<Rightarrow> bool" where
  "truthy x = (case x of None \<Rightarrow> False | Some s \<Rightarrow> s \<noteq> [])"

definition js_or :: "string option \<Rightarrow> string option \<Rightarrow> string option" where
  "js_or x y = (if truthy x then x else y)"

definition or_default :: "string option \<Rightarrow> string \<Rightarrow> string" where
  "or_default x d = (case x of None \<Rightarrow> d | Some s \<Rightarrow> if s \<noteq> [] then s else d)"

text \<open>
  \<open>OpenAIRealtimeEventTypes\<close>. The payload of \<open>content\<close> is the object
  \<open>{type: "text", text: t}\<close>, represented by \<open>t\<close>; the payload of \<open>error\<close> is
  \<open>new Error(m)\<close>, represented by \<open>m\<close>.
\<close>

datatype openai_event =
    Audio "byte list" | Close | Content "string option" | Error string
  | Interrupted | Open | TurnComplete

datatype action =
    Emit openai_event
  | HttpPost string string json
  | NewPeerConnection | PcClose
  | CreateAudioElement | AudioPause
  | GetUserMedia | AddTrack
  | CreateDataChannel string | DcSend json | DcClose
  | NewWebSocket string | WsSend json | WsClose

record openai_client =
  ws :: "ready_state option"
  pc :: "rtc_peer_connection option"
  dc :: "ready_state option"
  audioElement :: "html_audio_element option"
  apiKey :: string
  connectionType :: connection_type
  status :: status
  initialConfig :: "realtime_config option"
  trace :: "action list"

definition act :: "action list \<Rightarrow> openai_client \<Rightarrow> openai_client" where
  "act as c = c\<lparr>trace := trace c @ as\<rparr>"

definition emit :: "openai_event \<Rightarrow> openai_client \<Rightarrow> openai_client" where
  "emit e c = act [Emit e] c"

text \<open>
  \<^verbatim>\<open>
  send(data) {
    const jsonData = JSON.stringify(data);
    if (this.connectionType === 'webrtc' && this.dc && this.dc.readyState === 'open')
      this.dc.send(jsonData);
    else if (this.connectionType === 'websocket' && this.ws
             && this.ws.readyState === WebSocket.OPEN)
      this.ws.send(jsonData);
  }
  \<close>
  The message is recorded as the JSON value that is serialised.
\<close>

definition send :: "json \<Rightarrow> openai_client \<Rightarrow> openai_client" where
  "send data c =
     (if connectionType c = WebRTC \<and> dc c = Some OPEN then act [DcSend data] c
      else if connectionType c = WebSocket \<and> ws c = Some OPEN then act [WsSend data] c
      else c)"

definition conversation_item_create :: "string \<Rightarrow> json" where
  "conversation_item_create t =
     JObj [(''type'', JStr ''conversation.item.create''),
           (''item'', JObj [(''type'', JStr ''message''), (''role'', JStr ''user''),
              (''content'', JArr [JObj [(''type'', JStr ''input_text''), (''text'', JStr t)]])])]"

definition response_create :: json where
  "response_create = JObj [(''type'', JStr ''response.create'')]"

definition sendText :: "string \<Rightarrow> openai_client \<Rightarrow> openai_client" where
  "sendText t c = send response_create (send (conversation_item_create t) c)"

definition input_audio_buffer_append :: "byte list \<Rightarrow> json" where
  "input_audio_buffer_append audioData =
     JObj [(''type'', JStr ''input_audio_buffer.append''),
           (''audio'', JStr (arrayBufferToBase64 audioData))]"

text \<open>
  \<^verbatim>\<open>
  sendAudio(audioData) {
    if (this.connectionType === 'webrtc') { console.warn(...); return; }
    if (this.ws && this.ws.readyState === WebSocket.OPEN)
      this.send({type: "input_audio_buffer.append", audio: this.arrayBufferToBase64(audioData)});
  }
  \<close>
\<close>

definition sendAudio :: "byte list \<Rightarrow> openai_client \<Rightarrow> openai_client" where
  "sendAudio audioData c =
     (if connectionType c = WebRTC then c
      else if ws c = Some OPEN then send (input_audio_buffer_append audioData) c
      else c)"

text \<open>
  Inbound messages. \<open>handleMessage(message: any)\<close> switches on \<open>message.type\<close> and
  reads \<open>message.delta\<close>, \<open>message.text\<close> and \<open>message.error?.message\<close>. A message
  is represented by these four fields, each absent (\<open>None\<close>) or a string; \<open>msg_error\<close>
  is \<open>None\<close> when there is no \<open>error\<close> object and \<open>Some None\<close> when the object has no
  \<open>message\<close>.
  \<^verbatim>\<open>
  switch (message.type) {
    case "session.created": case "session.updated": break;
    case "response.audio.delta":
      if (message.delta && this.connectionType === 'websocket') {
        const audioData = this.base64ToArrayBuffer(message.delta);
        this.emit("audio", audioData);
      }
      break;
    case "response.text.delta": case "response.text.done":
      this.emit("content", {type: "text", text: message.text || message.delta}); break;
    case "response.done": this.emit("turncomplete"); break;
    case "response.cancelled": this.emit("interrupted"); break;
    case "error":
      this.emit("error", new Error(message.error?.message || "Unknown error")); break;
  }
  \<close>
  The result is \<open>None\<close> when the handler throws (\<open>atob\<close> rejects the payload); the
  callers catch the exception and drop the message.
\<close>

record server_message =
  msg_type :: "string option"
  msg_delta :: "string option"
  msg_text :: "string option"
  msg_error :: "string option option"

definition handleMessage :: "server_message \<Rightarrow> openai_client \<Rightarrow> openai_client option" where
  "handleMessage message c =
     (if msg_type message = Some ''session.created''
        \<or> msg_type message = Some ''session.updated'' then Some c
      else if msg_type message = Some ''response.audio.delta'' then
        (case msg_delta message of
           None \<Rightarrow> Some c
         | Some delta \<Rightarrow>
             if delta \<noteq> [] \<and> connectionType c = WebSocket then
               (case base64ToArrayBuffer delta of
                  None \<Rightarrow> None
                | Some audioData \<Rightarrow> Some (emit (Audio audioData) c))
             else Some c)
      else if msg_type message = Some ''response.text.delta''
        \<or> msg_type message = Some ''response.text.done'' then
        Some (emit (Content (js_or (msg_text message) (msg_delta message))) c)
      else if msg_type message = Some ''response.done'' then Some (emit TurnComplete c)
      else if msg_type message = Some ''response.cancelled'' then Some (emit Interrupted c)
      else if msg_type message = Some ''error'' then
        Some (emit (Error (or_default (case msg_error message of None \<Rightarrow> None | Some m \<Rightarrow> m)
                             ''Unknown error'')) c)
      else Some c)"

text \<open>
  \<open>ws.onmessage\<close> and \<open>dc.onmessage\<close>: \<open>JSON.parse\<close> and \<open>handleMessage\<close> run inside
  one \<open>try\<close>; on an exception the message is logged to the console and dropped. The
  argument is \<open>None\<close> when parsing fails.
\<close>

definition onmessage :: "server_message option \<Rightarrow> openai_client \<Rightarrow> openai_client" where
  "onmessage parsed c =
     (case parsed of
        None \<Rightarrow> c
      | Some message \<Rightarrow> (case handleMessage message c of None \<Rightarrow> c | Some c' \<Rightarrow> c'))"

text \<open>
  \<^verbatim>\<open>
  disconnect() {
    if (this.pc) { this.pc.close(); this.pc = null; }
    if (this.dc) { this.dc.close(); this.dc = null; }
    if (this.ws) { this.ws.close(); this.ws = null; }
    if (this.audioElement) { this.audioElement.pause(); ...; this.audioElement = null; }
    this._status = "disconnected";
    return true;
  }
  \<close>
\<close>

definition disconnect :: "openai_client \<Rightarrow> bool \<times> openai_client" where
  "disconnect c =
     (let c1 = (if pc c \<noteq> None then (act [PcClose] c)\<lparr>pc := None\<rparr> else c);
          c2 = (if dc c1 \<noteq> None then (act [DcClose] c1)\<lparr>dc := None\<rparr> else c1);
          c3 = (if ws c2 \<noteq> None then (act [WsClose] c2)\<lparr>ws := None\<rparr> else c2);
          c4 = (if audioElement c3 \<noteq> None then (act [AudioPause] c3)\<lparr>audioElement := None\<rparr>
                else c3)
      in (True, c4\<lparr>status := Disconnected\<rparr>))"

subsection \<open>Connecting\<close>

text \<open>
  A connect attempt awaits the browser and the network. What they answer is the
  environment of the attempt: the outcome of each awaited call, in the order in which the
  code makes them. An HTTP request is rejected (\<open>NetworkFailure\<close>), answered with a status
  that is not ok (\<open>HttpError statusText\<close>), answered with a body that cannot be read
  (\<open>BodyFailure\<close>), or answered with the body's payload.
\<close>

datatype http_outcome = NetworkFailure | HttpError string | BodyFailure | HttpOk string

record webrtc_env =
  env_client_secrets :: http_outcome
  env_peer_connection :: bool
  env_user_media :: "nat option"
  env_data_channel :: bool
  env_offer :: "string option"
  env_local_description :: bool
  env_calls :: http_outcome
  env_remote_description :: bool

datatype websocket_env = WsOpens | WsErrors | WsTimesOut

datatype connect_error =
    External string | FailedToConnect string | WebSocketConnectionFailed | ConnectionTimeout

definition client_secrets_body :: "string \<Rightarrow> realtime_config \<Rightarrow> json" where
  "client_secrets_body model config =
     JObj [(''session'', JObj [(''type'', JStr ''realtime''), (''model'', JStr model),
        (''audio'', JObj [(''output'', JObj [(''voice'', JStr (or_default (voice config) ''marin''))])]),
        (''instructions'', JStr (or_default (instructions config)
           ''You are a helpful assistant. Respond in the same language as the user.''))])]"

text \<open>
  \<open>getEphemeralKey\<close> posts to the token endpoint with the API key. Whatever fails inside
  its \<open>try\<close> (the request, a status that is not ok, the body), the \<open>catch\<close> returns the
  API key itself: \<^verbatim>\<open>// Fallback to using the API key directly (for testing only)\<close>.
\<close>

definition getEphemeralKey ::
  "string \<Rightarrow> realtime_config \<Rightarrow> http_outcome \<Rightarrow> openai_client \<Rightarrow> string \<times> openai_client" where
  "getEphemeralKey model config answer c =
     (let c1 = act [HttpPost ''https://api.openai.com/v1/realtime/client_secrets'' (apiKey c)
                      (client_secrets_body model config)] c
      in case answer of
           HttpOk v \<Rightarrow> (v, c1)
         | _ \<Rightarrow> (apiKey c, c1))"

text \<open>
  \<open>connectWebRTC\<close>: the credential, the peer connection, the audio element, the
  microphone (a failure there is caught and only logged), the data channel, the offer,
  the local description, the signalling request with the credential, the remote
  description; then \<open>_status = "connected"\<close>, \<open>emit("open")\<close>, \<open>return true\<close>. Its
  \<open>catch\<close> logs and rethrows, so the result is the exception (\<open>Inl\<close>) with the client
  as it was when the step failed, or \<open>Inr True\<close>.
\<close>

definition connectWebRTC ::
  "string \<Rightarrow> realtime_config \<Rightarrow> webrtc_env \<Rightarrow> openai_client
     \<Rightarrow> (connect_error + bool) \<times> openai_client" where
  "connectWebRTC model config env c =
     (let (ephemeralKey, c1) = getEphemeralKey model config (env_client_secrets env) c;
          c2 = c1\<lparr>initialConfig := Some config\<rparr>
      in if \<not> env_peer_connection env then (Inl (External ''RTCPeerConnection''), c2)
      else
        let c3 = (act [NewPeerConnection] c2)\<lparr>pc := Some RTCPeerConnection\<rparr>;
            c4 = (act [CreateAudioElement] c3)\<lparr>audioElement := Some HTMLAudioElement\<rparr>;
            c5 = (case env_user_media env of
                    None \<Rightarrow> act [GetUserMedia] c4
                  | Some tracks \<Rightarrow> act (GetUserMedia # replicate tracks AddTrack) c4)
        in if \<not> env_data_channel env then (Inl (External ''createDataChannel''), c5)
        else
          let c6 = (act [CreateDataChannel ''oai-events''] c5)\<lparr>dc := Some CONNECTING\<rparr>
          in case env_offer env of
               None \<Rightarrow> (Inl (External ''createOffer''), c6)
             | Some sdp \<Rightarrow>
                 if \<not> env_local_description env
                 then (Inl (External ''setLocalDescription''), c6)
                 else
                   let c7 = act [HttpPost (''https://api.openai.com/v1/realtime/calls?model='' @ model)
                                   ephemeralKey (JStr sdp)] c6
                   in case env_calls env of
                        NetworkFailure \<Rightarrow> (Inl (External ''fetch''), c7)
                      | HttpError statusText \<Rightarrow> (Inl (FailedToConnect statusText), c7)
                      | BodyFailure \<Rightarrow> (Inl (External ''text''), c7)
                      | HttpOk answer \<Rightarrow>
                          if \<not> env_remote_description env
                          then (Inl (External ''setRemoteDescription''), c7)
                          else (Inr True, emit Open (c7\<lparr>status := Connected\<rparr>)))"

definition session_update_websocket :: "string \<Rightarrow> realtime_config \<Rightarrow> json" where
  "session_update_websocket model config =
     JObj [(''type'', JStr ''session.update''),
       (''session'', JObj [(''type'', JStr ''realtime''), (''model'', JStr model),
          (''output_modalities'', JArr [JStr ''audio'', JStr ''text'']),
          (''audio'', JObj [
             (''input'', JObj [(''format'', JStr ''pcm16''),
                (''turn_detection'', JObj [(''type'', JStr ''semantic_vad''),
                   (''create_response'', JBool True)])]),
             (''output'', JObj [(''format'', JStr ''pcm16''),
                (''voice'', JStr (or_default (voice config) ''marin'')), (''speed'', JNum 1)])]),
          (''instructions'', JStr (or_default (instructions config)
             ''You are a helpful assistant. Respond in the same language as the user.''))])]"

text \<open>
  \<open>connectWebSocket\<close> returns a promise that \<open>ws.onopen\<close> resolves (after setting
  \<open>_status = "connected"\<close>, emitting \<open>open\<close> and sending the session configuration), that
  \<open>ws.onerror\<close> rejects (after emitting \<open>error\<close>), and that a timer rejects after ten
  seconds when the status is not yet connected. The browser sets the socket's
  \<open>readyState\<close>: open before \<open>onopen\<close>, closed before \<open>onerror\<close>.
\<close>

definition connectWebSocket ::
  "string \<Rightarrow> realtime_config \<Rightarrow> websocket_env \<Rightarrow> openai_client
     \<Rightarrow> (connect_error + bool) \<times> openai_client" where
  "connectWebSocket model config env c =
     (let c1 = (act [NewWebSocket (''wss://api.openai.com/v1/realtime?model='' @ model)] c)
                 \<lparr>ws := Some CONNECTING\<rparr>
      in case env of
           WsOpens \<Rightarrow>
             (Inr True,
              send (session_update_websocket model config)
                (emit Open (c1\<lparr>ws := Some OPEN, status := Connected\<rparr>)))
         | WsErrors \<Rightarrow>
             (Inl WebSocketConnectionFailed,
              emit (Error ''WebSocket error'') (c1\<lparr>ws := Some CLOSED\<rparr>))
         | WsTimesOut \<Rightarrow> (Inl ConnectionTimeout, c1))"

text \<open>
  \<^verbatim>\<open>
  async connect(model, config) {
    if (this._status === "connected" || this._status === "connecting") return false;
    this._status = "connecting";
    try {
      if (this.connectionType === 'webrtc') return await this.connectWebRTC(model, config);
      else return await this.connectWebSocket(model, config);
    } catch (e) { console.error(...); this._status = "disconnected"; return false; }
  }
  \<close>
\<close>

definition connect ::
  "string \<Rightarrow> realtime_config \<Rightarrow> webrtc_env \<Rightarrow> websocket_env \<Rightarrow> openai_client
     \<Rightarrow> bool \<times> openai_client" where
  "connect model config rtc sock c =
     (if status c = Connected \<or> status c = Connecting then (False, c)
      else
        let c1 = c\<lparr>status := Connecting\<rparr>;
            (r, c2) = (if connectionType c1 = WebRTC then connectWebRTC model config rtc c1
                       else connectWebSocket model config sock c1)
        in case r of
             Inr b \<Rightarrow> (b, c2)
           | Inl e \<Rightarrow> (False, c2\<lparr>status := Disconnected\<rparr>))"

text \<open>
  A handshake step after the credential fails: one of the steps of \<open>connectWebRTC\<close> whose
  exception is not caught inside it (the credential and the microphone are: their
  exceptions are caught where they arise).
\<close>

definition handshake_fails :: "webrtc_env \<Rightarrow> bool" where
  "handshake_fails env =
     (\<not> env_peer_connection env \<or> \<not> env_data_channel env \<or> env_offer env = None
      \<or> \<not> env_local_description env
      \<or> (case env_calls env of HttpOk _ \<Rightarrow> False | _ \<Rightarrow> True)
      \<or> \<not> env_remote_description env)"

text \<open>The HTTP requests in a trace, in order.\<close>

fun requests :: "action list \<Rightarrow> action list" where
  "requests [] = []"
| "requests (HttpPost url bearer body # as) = HttpPost url bearer body # requests as"
| "requests (_ # as) = requests as"

text \<open>The messages of the \<open>error\<close> events in a trace.\<close>

fun emitted_errors :: "action list \<Rightarrow> string list" where
  "emitted_errors [] = []"
| "emitted_errors (Emit (Error m) # as) = m # emitted_errors as"
| "emitted_errors (_ # as) = emitted_errors as"

definition session_update_datachannel :: "realtime_config \<Rightarrow> json" where
  "session_update_datachannel config =
     JObj [(''type'', JStr ''session.update''),
       (''session'', JObj [(''type'', JStr ''realtime''),
          (''audio'', JObj [(''output'', JObj [(''voice'', JStr (or_default (voice config) ''marin''))])]),
          (''instructions'', JStr (or_default (instructions config) ''You are a helpful assistant.''))])]"

text \<open>
  The handlers that \<open>setupDataChannel\<close> installs. \<open>dc.onopen\<close> runs when the browser has
  opened the channel: the initial configuration is sent then, once. \<open>dc.onerror\<close> emits
  \<open>error\<close>. (\<open>dc.onmessage\<close> is \<open>onmessage\<close> above.)
\<close>

definition dc_onopen :: "openai_client \<Rightarrow> openai_client" where
  "dc_onopen c =
     (case dc c of
        None \<Rightarrow> c
      | Some _ \<Rightarrow>
          (let c1 = c\<lparr>dc := Some OPEN\<rparr>
           in case initialConfig c1 of
                None \<Rightarrow> c1
              | Some config \<Rightarrow> (send (session_update_datachannel config) c1)\<lparr>initialConfig := None\<rparr>))"

definition dc_onerror :: "openai_client \<Rightarrow> openai_client" where
  "dc_onerror c = emit (Error ''Data channel error'') c"

text \<open>\<open>ws.onclose\<close>: \<open>this._status = "disconnected"; this.emit("close")\<close>.\<close>

definition ws_onclose :: "openai_client \<Rightarrow> openai_client" where
  "ws_onclose c = emit Close (c\<lparr>status := Disconnected\<rparr>)"

text \<open>A client as its constructor leaves it.\<close>

definition new_client :: "string \<Rightarrow> connection_type \<Rightarrow> openai_client" where
  "new_client key ct =
     \<lparr>ws = None, pc = None, dc = None, audioElement = None, apiKey = key,
      connectionType = ct, status = Disconnected, initialConfig = None, trace = []\<rparr>"

section \<open>The Gemini client (\<open>GeminiClient\<close>)\<close>

text \<open>
  The client wraps a session object of the vendor's SDK. The session is represented by
  whether its send methods succeed or throw (the code catches what they throw). What the
  client emits (\<open>log\<close> carries a diagnostic line, represented by its kind and its
  parameters) and what it asks of the SDK is appended to \<open>g_trace\<close>.
\<close>

datatype log_message =
    AlreadyConnectedOrConnecting | ConnectingTo string | ConnectedToGeminiLive
  | SessionCreatedSuccessfully | ConnectionFailed string | NoActiveSession
  | SendRealtimeInputFailed string | SentAudioChunks nat
  | SentTurnComplete | FailedToSendTurnComplete string | DisconnectedFromGemini

datatype gemini_event = GOpen | GError string | GLog log_message

datatype media_chunk = BlobChunk "byte list" string | InlineChunk string string

datatype live_session = SessionOk | SessionThrows string

datatype gemini_action =
    GEmit gemini_event
  | LiveConnect string
  | SendRealtimeInput media_chunk
  | SendClientContent "string list" bool
  | SessionClose

record gemini_client =
  session :: "live_session option"
  g_status :: status
  g_trace :: "gemini_action list"

definition g_act :: "gemini_action list \<Rightarrow> gemini_client \<Rightarrow> gemini_client" where
  "g_act as g = g\<lparr>g_trace := g_trace g @ as\<rparr>"

definition g_emit :: "gemini_event \<Rightarrow> gemini_client \<Rightarrow> gemini_client" where
  "g_emit e g = g_act [GEmit e] g"

text \<open>
  \<open>connect\<close>: the same guard as the other client, with a diagnostic. Then
  \<open>client.live.connect\<close> is awaited: it resolves with the session (the SDK has called
  \<open>onopen\<close> by then: \<open>_status = "connected"\<close>, \<open>log\<close>, \<open>open\<close>), or it rejects, and the
  \<open>catch\<close> emits \<open>log\<close> and \<open>error\<close>, resets the status and returns \<open>false\<close>.
\<close>

datatype live_env = LiveResolves | LiveRejects string

definition gemini_connect :: "string \<Rightarrow> live_env \<Rightarrow> gemini_client \<Rightarrow> bool \<times> gemini_client" where
  "gemini_connect model env g =
     (if g_status g = Connected \<or> g_status g = Connecting
      then (False, g_emit (GLog AlreadyConnectedOrConnecting) g)
      else
        let g1 = g_emit (GLog (ConnectingTo model)) (g\<lparr>g_status := Connecting\<rparr>);
            g2 = g_act [LiveConnect model] g1
        in case env of
             LiveResolves \<Rightarrow>
               (let g3 = g_emit GOpen (g_emit (GLog ConnectedToGeminiLive) (g2\<lparr>g_status := Connected\<rparr>));
                    g4 = g3\<lparr>session := Some SessionOk\<rparr>
                in (True, g_emit (GLog SessionCreatedSuccessfully) g4))
           | LiveRejects message \<Rightarrow>
               (False, (g_emit (GError message) (g_emit (GLog (ConnectionFailed message)) g2))
                         \<lparr>g_status := Disconnected\<rparr>))"

text \<open>
  \<^verbatim>\<open>
  sendRealtimeInput(chunks) {
    if (!this.session) { this.emit("log", "No active session"); return; }
    let sent = 0;
    for (const chunk of chunks) {
      try { this.session.sendRealtimeInput({media: chunk}); sent++; }
      catch (e) { this.emit("log", ...); this.emit("error", err); }
    }
    if (sent > 0) this.emit("log", `Sent audio chunks: ${sent}`);
  }
  \<close>
\<close>

fun send_chunks :: "live_session \<Rightarrow> media_chunk list \<Rightarrow> nat \<Rightarrow> gemini_client \<Rightarrow> nat \<times> gemini_client" where
  "send_chunks ss [] sent g = (sent, g)"
| "send_chunks ss (chunk # chunks) sent g =
     (case ss of
        SessionOk \<Rightarrow> send_chunks ss chunks (sent + 1) (g_act [SendRealtimeInput chunk] g)
      | SessionThrows message \<Rightarrow>
          send_chunks ss chunks sent
            (g_emit (GError message) (g_emit (GLog (SendRealtimeInputFailed message)) g)))"

definition sendRealtimeInput :: "media_chunk list \<Rightarrow> gemini_client \<Rightarrow> gemini_client" where
  "sendRealtimeInput chunks g =
     (case session g of
        None \<Rightarrow> g_emit (GLog NoActiveSession) g
      | Some ss \<Rightarrow>
          (let (sent, g1) = send_chunks ss chunks 0 g
           in if sent > 0 then g_emit (GLog (SentAudioChunks sent)) g1 else g1))"

text \<open>
  \<^verbatim>\<open>
  /** Signal end of user turn (useful after streaming audio input stops) */
  endTurn() {
    if (!this.session) { this.emit("log", "No active session"); return; }
    try { this.session.sendClientContent({turns: [], turnComplete: true});
          this.emit("log", "Sent turnComplete"); }
    catch (e) { this.emit("log", ...); this.emit("error", err); }
  }
  \<close>
\<close>

definition endTurn :: "gemini_client \<Rightarrow> gemini_client" where
  "endTurn g =
     (case session g of
        None \<Rightarrow> g_emit (GLog NoActiveSession) g
      | Some SessionOk \<Rightarrow> g_emit (GLog SentTurnComplete) (g_act [SendClientContent [] True] g)
      | Some (SessionThrows message) \<Rightarrow>
          g_emit (GError message) (g_emit (GLog (FailedToSendTurnComplete message)) g))"

text \<open>
  \<^verbatim>\<open>
  disconnect() {
    if (this.session) {
      this.session.close(); this.session = null; this._status = "disconnected";
      this.emit("log", "Disconnected from Gemini"); return true;
    }
    return false;
  }
  \<close>
\<close>

definition gemini_disconnect :: "gemini_client \<Rightarrow> bool \<times> gemini_client" where
  "gemini_disconnect g =
     (if session g \<noteq> None
      then (True, g_emit (GLog DisconnectedFromGemini)
                    ((g_act [SessionClose] g)\<lparr>session := None, g_status := Disconnected\<rparr>))
      else (False, g))"

definition new_gemini_client :: gemini_client where
  "new_gemini_client = \<lparr>session = None, g_status = Disconnected, g_trace = []\<rparr>"

section \<open>Recording in the application component\<close>

text \<open>
  The component keeps, among others: the selected model, the \<open>isConnected\<close> flag, the
  handle of the 100 ms send
  timer (\<open>sendIntervalRef\<close>, here whether it is set), the chunk buffer
  (\<open>audioChunkBufferRef\<close>), the Gemini client (\<open>geminiClientRef\<close>, possibly null), the
  recorder (\<open>audioRecorderRef\<close>, here whether it is capturing), the \<open>isRecording\<close> flag and
  the component's log. (\<open>openaiClientRef\<close> is the other client.)
\<close>

datatype model_type = Gemini | OpenAI

datatype app_log =
    StartingRecording | RecordingStarted | RecordingError
  | SentChunksToGemini nat | SentFinalChunksToGemini nat | SentTurnCompleteToGemini
  | RecordingStopped

record app =
  selectedModel :: model_type
  isConnected :: bool
  sendIntervalRef :: bool
  audioChunkBufferRef :: "byte list list"
  geminiClientRef :: "gemini_client option"
  openaiClientRef :: "openai_client option"
  audioRecorderRef :: bool
  isRecording :: bool
  logs :: "app_log list"

definition addLog :: "app_log \<Rightarrow> app \<Rightarrow> app" where
  "addLog m a = a\<lparr>logs := logs a @ [m]\<rparr>"

definition pcm_chunks :: "byte list list \<Rightarrow> media_chunk list" where
  "pcm_chunks buffers =
     map (\<lambda>buffer. InlineChunk ''audio/pcm;rate=16000'' (arrayBufferToBase64 buffer)) buffers"

text \<open>
  The capture callback that \<open>startRecording\<close> hands to the recorder: every frame is
  forwarded at once, as a blob to Gemini or through \<open>sendAudio\<close> to the other client.
  It does not append to the chunk buffer.
\<close>

definition on_audio_data :: "byte list \<Rightarrow> app \<Rightarrow> app" where
  "on_audio_data audioData a =
     (if selectedModel a = Gemini
      then a\<lparr>geminiClientRef :=
               map_option (sendRealtimeInput [BlobChunk audioData ''audio/pcm;rate=16000''])
                 (geminiClientRef a)\<rparr>
      else a\<lparr>openaiClientRef := map_option (sendAudio audioData) (openaiClientRef a)\<rparr>)"

text \<open>
  The timer callback installed by \<open>startRecording\<close> for Gemini: a non-empty buffer is
  sent as one batch and cleared.
\<close>

definition interval_tick :: "app \<Rightarrow> app" where
  "interval_tick a =
     (if audioChunkBufferRef a \<noteq> [] then
        (let chunks = pcm_chunks (audioChunkBufferRef a);
             a1 = a\<lparr>geminiClientRef := map_option (sendRealtimeInput chunks) (geminiClientRef a)\<rparr>;
             a2 = addLog (SentChunksToGemini (length chunks)) a1
         in a2\<lparr>audioChunkBufferRef := []\<rparr>)
      else a)"

text \<open>
  \<open>startRecording\<close> refuses when not connected. Otherwise it clears the chunk buffer,
  installs the send timer when the model is Gemini, and starts the recorder with the
  capture callback; when the microphone is refused (\<open>mic\<close> is false) the \<open>catch\<close>
  logs the error, and the timer stays installed.
  \<^verbatim>\<open>
  audioChunkBufferRef.current = [];
  // For Gemini, we need to batch and send audio chunks periodically
  if (selectedModel === 'gemini') { sendIntervalRef.current = setInterval(() => {...}, 100); }
  await audioRecorderRef.current?.start((audioData) => {
    if (selectedModel === 'gemini') {
      // Send immediately as Blob (sample parity)
      const blob = new Blob([audioData], { type: 'audio/pcm;rate=16000' });
      geminiClientRef.current?.sendRealtimeInput([blob]);
    } else { openaiClientRef.current?.sendAudio(audioData); }
  });
  \<close>
\<close>

definition startRecording :: "bool \<Rightarrow> app \<Rightarrow> app" where
  "startRecording mic a =
     (if \<not> isConnected a then a
      else
        let a1 = addLog StartingRecording a;
            a2 = a1\<lparr>audioChunkBufferRef := []\<rparr>;
            a3 = (if selectedModel a2 = Gemini then a2\<lparr>sendIntervalRef := True\<rparr> else a2)
        in if mic then addLog RecordingStarted (a3\<lparr>audioRecorderRef := True, isRecording := True\<rparr>)
           else addLog RecordingError a3)"

text \<open>What happens while recording: the recorder delivers a frame, or the timer fires.\<close>

datatype capture_event = Frame "byte list" | Tick

fun capture :: "app \<Rightarrow> capture_event \<Rightarrow> app" where
  "capture a (Frame audioData) = on_audio_data audioData a"
| "capture a Tick = interval_tick a"

text \<open>
  \<^verbatim>\<open>
  const stopRecording = () => {
    if (sendIntervalRef.current) {
      clearInterval(sendIntervalRef.current); sendIntervalRef.current = null;
      // Send any remaining buffered audio
      if (selectedModel === 'gemini' && audioChunkBufferRef.current.length > 0) {
        const chunks = audioChunkBufferRef.current.map(buffer => ({
          mimeType: 'audio/pcm;rate=16000', data: arrayBufferToBase64(buffer)}));
        geminiClientRef.current?.sendRealtimeInput(chunks);
        addLog(`Sent final ${chunks.length} audio chunks to Gemini`);
        audioChunkBufferRef.current = [];
        // signal end of turn so the model can respond
        geminiClientRef.current?.endTurn();
        addLog('Sent turnComplete to Gemini');
      }
    }
    audioRecorderRef.current?.stop(); setIsRecording(false); addLog('Recording stopped');
  };
  \<close>
\<close>

definition stopRecording :: "app \<Rightarrow> app" where
  "stopRecording a =
     (let a1 =
        (if sendIntervalRef a then
           (let b = a\<lparr>sendIntervalRef := False\<rparr> in
            if selectedModel b = Gemini \<and> audioChunkBufferRef b \<noteq> [] then
              (let chunks = pcm_chunks (audioChunkBufferRef b);
                   b1 = b\<lparr>geminiClientRef := map_option (sendRealtimeInput chunks) (geminiClientRef b)\<rparr>;
                   b2 = addLog (SentFinalChunksToGemini (length chunks)) b1;
                   b3 = b2\<lparr>audioChunkBufferRef := []\<rparr>;
                   b4 = b3\<lparr>geminiClientRef := map_option endTurn (geminiClientRef b3)\<rparr>
               in addLog SentTurnCompleteToGemini b4)
            else b)
         else a)
      in addLog RecordingStopped (a1\<lparr>audioRecorderRef := False, isRecording := False\<rparr>))"

section \<open>The playback queue (\<open>AudioStreamer\<close>)\<close>

text \<open>
  \<open>addPCM16\<close> converts little-endian 16-bit samples to floats (\<open>sample / 32768.0\<close>, exact
  in single precision, hence a \<open>real\<close> here), appends the buffer to \<open>audioQueue\<close> and
  starts playing when nothing plays. \<open>playQueue\<close> takes the first buffer off the queue
  and starts an audio source for it; the source's \<open>onended\<close> calls \<open>playQueue\<close> again.
  \<open>started\<close> lists the buffers for which \<open>source.start()\<close> was called, with the sample
  rate of their audio buffer.
  \<^verbatim>\<open>
  stop() { this.audioQueue = []; this.isPlaying = false; }
  \<close>
\<close>

fun pcm16_to_float32 :: "byte list \<Rightarrow> real list" where
  "pcm16_to_float32 (lo # hi # rest) =
     (let u = int (unat lo) + 256 * int (unat hi);
          sample = (if u \<ge> 32768 then u - 65536 else u)
      in real_of_int sample / 32768 # pcm16_to_float32 rest)"
| "pcm16_to_float32 _ = []"

record audio_streamer =
  audioQueue :: "real list list"
  isPlaying :: bool
  sampleRate :: nat
  started :: "(real list \<times> nat) list"


definition playQueue :: "audio_streamer \<Rightarrow> audio_streamer" where
  "playQueue s =
     (case audioQueue s of
        [] \<Rightarrow> s\<lparr>isPlaying := False\<rparr>
      | audioData # rest \<Rightarrow>
          s\<lparr>isPlaying := True, audioQueue := rest,
            started := started s @ [(audioData, sampleRate s)]\<rparr>)"

definition addPCM16 :: "byte list \<Rightarrow> audio_streamer \<Rightarrow> audio_streamer" where
  "addPCM16 pcm16Data s =
     (let s1 = s\<lparr>audioQueue := audioQueue s @ [pcm16_to_float32 pcm16Data]\<rparr>
      in if \<not> isPlaying s1 then playQueue s1 else s1)"

definition stop :: "audio_streamer \<Rightarrow> audio_streamer" where
  "stop s = s\<lparr>audioQueue := [], isPlaying := False\<rparr>"

definition setSampleRate :: "nat \<Rightarrow> audio_streamer \<Rightarrow> audio_streamer" where
  "setSampleRate rate s = s\<lparr>sampleRate := rate\<rparr>"

text \<open>
  What happens to the streamer of the application component. Its handlers
  (\<open>setupGeminiHandlers\<close>, \<open>setupOpenAIHandlers\<close>) first remove all listeners and then
  subscribe to \<open>open\<close>, \<open>close\<close>, \<open>audio\<close>, \<open>content\<close> and \<open>error\<close> (and \<open>log\<close>):
  \<^verbatim>\<open>
  client.on('audio', (data) => { audioStreamerRef.current?.addPCM16(new Uint8Array(data)); ... });
  \<close>
  There is no listener for \<open>interrupted\<close>: when a client emits it, nothing runs. The
  component calls \<open>audioStreamerRef.current?.stop()\<close> in two places only, in its
  \<open>disconnect\<close> and in the cleanup on unmount (\<open>StopEvent\<close>). A started source ends,
  which runs its \<open>onended\<close>; \<open>SourceEnded\<close> is allowed at any time, which covers every
  order in which the audio hardware can finish sources.
\<close>

datatype playback_event = AudioEvent "byte list" | InterruptedEvent | StopEvent | SourceEnded

fun deliver_app :: "audio_streamer \<Rightarrow> playback_event \<Rightarrow> audio_streamer" where
  "deliver_app s (AudioEvent audioData) = addPCM16 audioData s"
| "deliver_app s InterruptedEvent = s"
| "deliver_app s StopEvent = stop s"
| "deliver_app s SourceEnded = playQueue s"

definition run_app :: "audio_streamer \<Rightarrow> playback_event list \<Rightarrow> audio_streamer" where
  "run_app s events = foldl deliver_app s events"

text \<open>The buffers that a sequence of events brings in, converted, in order.\<close>

fun arrivals :: "playback_event list \<Rightarrow> real list list" where
  "arrivals [] = []"
| "arrivals (AudioEvent audioData # es) = pcm16_to_float32 audioData # arrivals es"
| "arrivals (_ # es) = arrivals es"

section \<open>The unified client (\<open>UnifiedLiveClient\<close>) and the provider switch\<close>

text \<open>
  The unified client owns one client per provider and a current provider. Its Gemini
  client is of a class (\<open>GenAILiveClient\<close>) whose source is not available: it is a
  parameter here, a state of some type \<open>'g\<close> with a \<open>disconnect\<close> operation that returns
  its result, the events it emitted meanwhile and the new state. The unified client
  re-emits every event of its clients; on \<open>open\<close> and \<open>close\<close> it also updates its own
  status (\<open>setupGeminiEvents\<close>, \<open>setupOpenAIEvents\<close>).
\<close>

datatype provider = ProviderGemini | ProviderOpenAI

datatype 'e adapter_event = AdapterOpen | AdapterClose | AdapterOther 'e

datatype 'e unified_event =
    Forwarded "'e adapter_event" | ForwardedOpenAI openai_event | ProviderChanged provider

record ('g, 'e) unified_client =
  u_geminiClient :: "'g option"
  u_openaiClient :: "openai_client option"
  currentProvider :: provider
  u_status :: status
  u_emitted :: "'e unified_event list"

fun forward :: "('g, 'e) unified_client \<Rightarrow> 'e adapter_event \<Rightarrow> ('g, 'e) unified_client" where
  "forward u AdapterOpen = u\<lparr>u_status := Connected, u_emitted := u_emitted u @ [Forwarded AdapterOpen]\<rparr>"
| "forward u AdapterClose =
     u\<lparr>u_status := Disconnected, u_emitted := u_emitted u @ [Forwarded AdapterClose]\<rparr>"
| "forward u (AdapterOther e) = u\<lparr>u_emitted := u_emitted u @ [Forwarded (AdapterOther e)]\<rparr>"

text \<open>
  \<open>setupOpenAIEvents\<close>: every event of the OpenAI client is re-emitted; \<open>open\<close> sets the
  unified status to connected and \<open>close\<close> sets it to disconnected, before re-emitting.
\<close>

fun forward_openai :: "('g, 'e) unified_client \<Rightarrow> openai_event \<Rightarrow> ('g, 'e) unified_client" where
  "forward_openai u Open =
     u\<lparr>u_status := Connected, u_emitted := u_emitted u @ [ForwardedOpenAI Open]\<rparr>"
| "forward_openai u Close =
     u\<lparr>u_status := Disconnected, u_emitted := u_emitted u @ [ForwardedOpenAI Close]\<rparr>"
| "forward_openai u e = u\<lparr>u_emitted := u_emitted u @ [ForwardedOpenAI e]\<rparr>"

text \<open>The events in a trace, in order.\<close>

fun emitted :: "action list \<Rightarrow> openai_event list" where
  "emitted [] = []"
| "emitted (Emit e # as) = e # emitted as"
| "emitted (_ # as) = emitted as"

text \<open>
  \<^verbatim>\<open>
  async connect(model: string, config: any = {}): Promise<boolean> {
    if (this._status === "connected" || this._status === "connecting") return false;
    this._status = "connecting";
    try {
      if (this._currentProvider === 'gemini') {
        if (!this.geminiClient) throw new Error("Gemini client not initialized");
        return await this.geminiClient.connect(model, config as LiveConnectConfig);
      } else {
        if (!this.openaiClient) throw new Error("OpenAI client not initialized");
        return await this.openaiClient.connect(model, config);
      }
    } catch (error) { this._status = "disconnected"; throw error; }
  }
  \<close>
  The result is the exception (\<open>Inl\<close>) or the client's answer. The status is reset in
  the \<open>catch\<close> only: a client that answers \<open>false\<close> without throwing leaves it as it
  is. The events that the OpenAI client emits during its \<open>connect\<close> (the part of its trace
  that the call appends) are forwarded. The \<open>connect\<close> of the absent Gemini class is a
  parameter: it answers or throws (\<open>None\<close>), and lists the events it emitted.
\<close>

datatype unified_error = NotInitialized provider | AdapterThrew

definition unified_connect ::
  "('g \<Rightarrow> (bool option \<times> 'e adapter_event list) \<times> 'g) \<Rightarrow> string \<Rightarrow> realtime_config
     \<Rightarrow> webrtc_env \<Rightarrow> websocket_env \<Rightarrow> ('g, 'e) unified_client
     \<Rightarrow> (unified_error + bool) \<times> ('g, 'e) unified_client" where
  "unified_connect gconnect model config rtc sock u =
     (if u_status u = Connected \<or> u_status u = Connecting then (Inr False, u)
      else
        let u1 = u\<lparr>u_status := Connecting\<rparr>
        in case currentProvider u1 of
             ProviderGemini \<Rightarrow>
               (case u_geminiClient u1 of
                  None \<Rightarrow> (Inl (NotInitialized ProviderGemini), u1\<lparr>u_status := Disconnected\<rparr>)
                | Some g \<Rightarrow>
                    (let ((answer, events), g') = gconnect g;
                         u2 = foldl forward (u1\<lparr>u_geminiClient := Some g'\<rparr>) events
                     in case answer of
                          None \<Rightarrow> (Inl AdapterThrew, u2\<lparr>u_status := Disconnected\<rparr>)
                        | Some b \<Rightarrow> (Inr b, u2)))
           | ProviderOpenAI \<Rightarrow>
               (case u_openaiClient u1 of
                  None \<Rightarrow> (Inl (NotInitialized ProviderOpenAI), u1\<lparr>u_status := Disconnected\<rparr>)
                | Some c \<Rightarrow>
                    (let (b, c') = connect model config rtc sock c;
                         u2 = foldl forward_openai (u1\<lparr>u_openaiClient := Some c'\<rparr>)
                                (emitted (drop (length (trace c)) (trace c')))
                     in (Inr b, u2))))"

text \<open>
  \<^verbatim>\<open>
  disconnect(): boolean {
    const activeClient = this.activeClient;
    if (activeClient) {
      const result = activeClient.disconnect();
      if (result) this._status = "disconnected";
      return result;
    }
    return false;
  }
  \<close>
  \<open>OpenAIRealtimeClient.disconnect\<close> emits no event, so nothing is forwarded for it.
\<close>

definition unified_disconnect ::
  "('g \<Rightarrow> (bool \<times> 'e adapter_event list) \<times> 'g) \<Rightarrow> ('g, 'e) unified_client
     \<Rightarrow> bool \<times> ('g, 'e) unified_client" where
  "unified_disconnect gdisconnect u =
     (case currentProvider u of
        ProviderGemini \<Rightarrow>
          (case u_geminiClient u of
             None \<Rightarrow> (False, u)
           | Some g \<Rightarrow>
               (let ((result, events), g') = gdisconnect g;
                    u1 = foldl forward (u\<lparr>u_geminiClient := Some g'\<rparr>) events
                in (result, if result then u1\<lparr>u_status := Disconnected\<rparr> else u1)))
      | ProviderOpenAI \<Rightarrow>
          (case u_openaiClient u of
             None \<Rightarrow> (False, u)
           | Some c \<Rightarrow>
               (let (result, c') = disconnect c;
                    u1 = u\<lparr>u_openaiClient := Some c'\<rparr>
                in (result, if result then u1\<lparr>u_status := Disconnected\<rparr> else u1))))"

text \<open>
  \<^verbatim>\<open>
  async switchProvider(provider: Provider): Promise<void> {
    if (provider === this._currentProvider) return;
    await this.disconnect();              // Disconnect current provider
    this._currentProvider = provider;     // Switch to new provider
    this.emit('providerChanged', provider);
  }
  \<close>
\<close>

definition switchProvider ::
  "('g \<Rightarrow> (bool \<times> 'e adapter_event list) \<times> 'g) \<Rightarrow> provider \<Rightarrow> ('g, 'e) unified_client
     \<Rightarrow> ('g, 'e) unified_client" where
  "switchProvider gdisconnect target u =
     (if target = currentProvider u then u
      else
        let (_, u1) = unified_disconnect gdisconnect u
        in u1\<lparr>currentProvider := target, u_emitted := u_emitted u1 @ [ProviderChanged target]\<rparr>)"

section \<open>Properties of the base64 codec\<close>

lemma distinct_alphabet: "distinct base64_alphabet"
  by (simp add: base64_alphabet_def)

lemma length_alphabet: "length base64_alphabet = 64"
  by (simp add: base64_alphabet_def)

lemma index_of_nth: "distinct xs \<Longrightarrow> n < length xs \<Longrightarrow> index_of (xs ! n) xs = Some n"
proof (induction xs arbitrary: n)
  case Nil then show ?case by simp
next
  case (Cons x xs)
  then show ?case by (cases n) auto
qed

lemma sextet_of_char: "n < 64 \<Longrightarrow> sextet_of (sextet_char n) = Some n"
  by (simp add: sextet_of_def sextet_char_def index_of_nth distinct_alphabet length_alphabet)

lemma alphabet_plain: "list_all (\<lambda>c. \<not> ascii_whitespace c \<and> c \<noteq> CHR ''='') base64_alphabet"
  by (simp add: base64_alphabet_def ascii_whitespace_def)

lemma sextet_char_plain:
  assumes "n < 64"
  shows "\<not> ascii_whitespace (sextet_char n)" and "sextet_char n \<noteq> CHR ''=''"
proof -
  have "sextet_char n \<in> set base64_alphabet"
    using assms by (simp add: sextet_char_def length_alphabet)
  with alphabet_plain show "\<not> ascii_whitespace (sextet_char n)" and "sextet_char n \<noteq> CHR ''=''"
    by (auto simp: list_all_iff)
qed

lemma sextet_bound_hi: "(a::nat) < 256 \<Longrightarrow> a div 4 < 64"
  by simp

lemma sextet_bound_mid1: "(a::nat) mod 4 * 16 + b div 16 < 64" if "b < 256"
proof -
  have "a mod 4 < 4" by simp
  then have "a mod 4 \<le> 3" by linarith
  moreover have "b div 16 < 16" using that by simp
  ultimately show ?thesis by linarith
qed

lemma sextet_bound_mid2: "(b::nat) mod 16 * 4 + c div 64 < 64" if "c < 256"
proof -
  have "b mod 16 < 16" by simp
  then have "b mod 16 \<le> 15" by linarith
  moreover have "c div 64 < 4" using that by simp
  ultimately show ?thesis by linarith
qed

lemma sextet_bound_tail2: "(b::nat) mod 16 * 4 < 64"
  using sextet_bound_mid2 [of 0 b] by simp

lemma sextet_bound_tail1: "(a::nat) mod 4 * 16 < 64"
  using sextet_bound_mid1 [of 0 a] by simp

lemmas sextet_bounds = sextet_bound_hi sextet_bound_mid1 sextet_bound_mid2
  sextet_bound_tail2 sextet_bound_tail1

lemma length_encode_groups: "length (encode_groups xs) mod 4 = 0"
  by (induction xs rule: encode_groups.induct) auto

lemma encode_groups_nonempty: "xs \<noteq> [] \<Longrightarrow> 4 \<le> length (encode_groups xs)"
  by (induction xs rule: encode_groups.induct) auto

lemma pad_not_whitespace: "\<not> ascii_whitespace CHR ''=''"
  by (simp add: ascii_whitespace_def)

lemma filter_encode_groups:
  "list_all (\<lambda>x. x < 256) xs \<Longrightarrow>
   filter (\<lambda>c. \<not> ascii_whitespace c) (encode_groups xs) = encode_groups xs"
  by (induction xs rule: encode_groups.induct)
     (simp_all add: sextet_char_plain sextet_bounds pad_not_whitespace)

lemma strip_eq_append: "2 \<le> length q \<Longrightarrow> strip_eq (p @ q) = p @ strip_eq q"
proof -
  assume "2 \<le> length q"
  then have q: "q \<noteq> []" and bq: "butlast q \<noteq> []"
    by (auto simp: butlast_conv_take)
  then show ?thesis
    by (simp add: strip_eq_def Let_def butlast_append last_append)
qed

lemma strip_eq_encode:
  "list_all (\<lambda>x. x < 256) xs \<Longrightarrow> strip_eq (encode_groups xs) = encode_nopad xs"
proof (induction xs rule: encode_groups.induct)
  case (1 a b c rest)
  let ?p = "[sextet_char (a div 4), sextet_char ((a mod 4) * 16 + b div 16),
     sextet_char ((b mod 16) * 4 + c div 64), sextet_char (c mod 64)]"
  show ?case
  proof (cases "rest = []")
    case True
    with 1 show ?thesis by (simp add: strip_eq_def sextet_char_plain sextet_bounds)
  next
    case False
    then have "2 \<le> length (encode_groups rest)"
      using encode_groups_nonempty [of rest] by simp
    then have "strip_eq (?p @ encode_groups rest) = ?p @ strip_eq (encode_groups rest)"
      by (rule strip_eq_append)
    with 1 show ?thesis by simp
  qed
next
  case (2 a b)
  then show ?case by (simp add: strip_eq_def sextet_char_plain sextet_bounds)
next
  case (3 a)
  then show ?case by (simp add: strip_eq_def sextet_char_plain sextet_bounds)
next
  case 4
  then show ?case by (simp add: strip_eq_def)
qed

lemma strip_padding_encode:
  "list_all (\<lambda>x. x < 256) xs \<Longrightarrow> strip_padding (encode_groups xs) = encode_nopad xs"
  using strip_eq_encode [of xs] length_encode_groups [of xs]
  by (simp add: strip_padding_def strip_eq_def)

lemma length_encode_nopad: "length (encode_nopad xs) mod 4 \<noteq> 1"
  by (induction xs rule: encode_nopad.induct) auto

lemma encode_nopad_in_alphabet:
  "list_all (\<lambda>x. x < 256) xs \<Longrightarrow> \<not> list_ex (\<lambda>c. sextet_of c = None) (encode_nopad xs)"
  by (induction xs rule: encode_nopad.induct) (simp_all add: sextet_of_char sextet_bounds)

lemma recombine3:
  fixes a b c :: nat
  shows "(((a div 4) * 64 + ((a mod 4) * 16 + b div 16)) * 64 + ((b mod 16) * 4 + c div 64)) * 64
           + c mod 64 = (a * 256 + b) * 256 + c"
proof -
  have g: "((qa * 64 + (ra * 16 + qb)) * 64 + (rb * 4 + qc)) * 64 + rc
      = ((4 * qa + ra) * 256 + (16 * qb + rb)) * 256 + (64 * qc + rc)"
    for qa ra qb rb qc rc :: nat
    by simp
  show ?thesis
    using g [of "a div 4" "a mod 4" "b div 16" "b mod 16" "c div 64" "c mod 64"] by simp
qed

lemma recombine2:
  fixes a b :: nat
  shows "((a div 4) * 64 + ((a mod 4) * 16 + b div 16)) * 64 + (b mod 16) * 4 = (a * 256 + b) * 4"
proof -
  have g: "(qa * 64 + (ra * 16 + qb)) * 64 + rb * 4 = ((4 * qa + ra) * 256 + (16 * qb + rb)) * 4"
    for qa ra qb rb :: nat
    by simp
  show ?thesis
    using g [of "a div 4" "a mod 4" "b div 16" "b mod 16"] by simp
qed

lemma recombine1:
  fixes a :: nat
  shows "(a div 4) * 64 + (a mod 4) * 16 = a * 16"
proof -
  have g: "qa * 64 + ra * 16 = (4 * qa + ra) * 16" for qa ra :: nat
    by simp
  show ?thesis using g [of "a div 4" "a mod 4"] by simp
qed

lemma div_mod_256:
  fixes x c :: nat
  assumes "c < 256"
  shows "(x * 256 + c) div 256 = x" and "(x * 256 + c) mod 256 = c"
  using assms by simp_all

lemma split3:
  fixes a b c :: nat
  assumes "a < 256" "b < 256" "c < 256"
  shows "((a * 256 + b) * 256 + c) div 65536 = a"
    and "((a * 256 + b) * 256 + c) div 256 mod 256 = b"
    and "((a * 256 + b) * 256 + c) mod 256 = c"
proof -
  have "((a * 256 + b) * 256 + c) = a * 65536 + (b * 256 + c)" by simp
  moreover have "b * 256 + c < 65536" using assms by simp
  ultimately show "((a * 256 + b) * 256 + c) div 65536 = a"
    by simp
  show "((a * 256 + b) * 256 + c) div 256 mod 256 = b"
    unfolding div_mod_256 [OF assms(3)] by (rule div_mod_256 [OF assms(2)])
  show "((a * 256 + b) * 256 + c) mod 256 = c"
    by (rule div_mod_256 [OF assms(3)])
qed

lemma decode4:
  assumes "v1 < 64" "v2 < 64" "v3 < 64" "v4 < 64"
  shows "decode_loop (sextet_char v1 # sextet_char v2 # sextet_char v3 # sextet_char v4 # cs) 0 0 out
     = decode_loop cs 0 0 (out @ [(((v1 * 64 + v2) * 64 + v3) * 64 + v4) div 65536,
          (((v1 * 64 + v2) * 64 + v3) * 64 + v4) div 256 mod 256,
          (((v1 * 64 + v2) * 64 + v3) * 64 + v4) mod 256])"
  using assms by (simp add: sextet_of_char Let_def)

lemma decode3:
  assumes "v1 < 64" "v2 < 64" "v3 < 64"
  shows "decode_loop [sextet_char v1, sextet_char v2, sextet_char v3] 0 0 out
     = Some (out @ [((v1 * 64 + v2) * 64 + v3) div 4 div 256, ((v1 * 64 + v2) * 64 + v3) div 4 mod 256])"
  using assms by (simp add: sextet_of_char Let_def)

lemma decode2:
  assumes "v1 < 64" "v2 < 64"
  shows "decode_loop [sextet_char v1, sextet_char v2] 0 0 out = Some (out @ [(v1 * 64 + v2) div 16])"
  using assms by (simp add: sextet_of_char Let_def)

lemma decode_group:
  assumes "a < 256" "b < 256" "c < 256"
  shows "decode_loop (sextet_char (a div 4) # sextet_char ((a mod 4) * 16 + b div 16) #
     sextet_char ((b mod 16) * 4 + c div 64) # sextet_char (c mod 64) # cs) 0 0 out
     = decode_loop cs 0 0 (out @ [a, b, c])"
proof -
  have "decode_loop (sextet_char (a div 4) # sextet_char ((a mod 4) * 16 + b div 16) #
     sextet_char ((b mod 16) * 4 + c div 64) # sextet_char (c mod 64) # cs) 0 0 out
     = decode_loop cs 0 0 (out @
        [((((a div 4) * 64 + ((a mod 4) * 16 + b div 16)) * 64 + ((b mod 16) * 4 + c div 64)) * 64
           + c mod 64) div 65536,
         ((((a div 4) * 64 + ((a mod 4) * 16 + b div 16)) * 64 + ((b mod 16) * 4 + c div 64)) * 64
           + c mod 64) div 256 mod 256,
         ((((a div 4) * 64 + ((a mod 4) * 16 + b div 16)) * 64 + ((b mod 16) * 4 + c div 64)) * 64
           + c mod 64) mod 256])"
    using assms by (intro decode4 sextet_bounds) simp_all
  then show ?thesis
    by (simp only: recombine3 split3 [OF assms])
qed

lemma decode_tail2:
  assumes "a < 256" "b < 256"
  shows "decode_loop [sextet_char (a div 4), sextet_char ((a mod 4) * 16 + b div 16),
      sextet_char ((b mod 16) * 4)] 0 0 out = Some (out @ [a, b])"
proof -
  have "decode_loop [sextet_char (a div 4), sextet_char ((a mod 4) * 16 + b div 16),
      sextet_char ((b mod 16) * 4)] 0 0 out
    = Some (out @ [(((a div 4) * 64 + ((a mod 4) * 16 + b div 16)) * 64 + (b mod 16) * 4) div 4 div 256,
        (((a div 4) * 64 + ((a mod 4) * 16 + b div 16)) * 64 + (b mod 16) * 4) div 4 mod 256])"
    using assms by (intro decode3 sextet_bounds) simp_all
  moreover have "(a * 256 + b) * 4 div 4 = a * 256 + b"
    by simp
  ultimately show ?thesis
    by (simp only: recombine2 div_mod_256 [OF assms(2)])
qed

lemma decode_tail1:
  assumes "a < 256"
  shows "decode_loop [sextet_char (a div 4), sextet_char ((a mod 4) * 16)] 0 0 out = Some (out @ [a])"
proof -
  have "decode_loop [sextet_char (a div 4), sextet_char ((a mod 4) * 16)] 0 0 out
    = Some (out @ [((a div 4) * 64 + (a mod 4) * 16) div 16])"
    using assms by (intro decode2 sextet_bounds) simp_all
  moreover have "a * 16 div 16 = a"
    by simp
  ultimately show ?thesis
    by (simp only: recombine1)
qed

lemma decode_encode_nopad:
  "list_all (\<lambda>x. x < 256) xs \<Longrightarrow> decode_loop (encode_nopad xs) 0 0 out = Some (out @ xs)"
proof (induction xs arbitrary: out rule: encode_nopad.induct)
  case (1 a b c rest)
  then have ab: "a < 256" "b < 256" "c < 256" and r: "list_all (\<lambda>x. x < 256) rest"
    by simp_all
  show ?case
    using 1(1) [OF r, of "out @ [a, b, c]"]
    by (simp only: encode_nopad.simps decode_group [OF ab]) simp
next
  case (2 a b)
  then have "a < 256" "b < 256" by simp_all
  then show ?case by (simp only: encode_nopad.simps decode_tail2)
next
  case (3 a)
  then have "a < 256" by simp
  then show ?case by (simp only: encode_nopad.simps decode_tail1)
next
  case 4
  then show ?case by simp
qed

lemma atob_btoa: "atob (btoa s) = Some s"
proof -
  let ?xs = "map of_char s :: nat list"
  have bound: "list_all (\<lambda>x. x < 256) ?xs"
    by (simp add: list_all_iff)
  have "map char_of ?xs = s"
    by (simp add: comp_def)
  then show ?thesis
    using bound
    using length_encode_nopad [of ?xs]
    by (simp add: atob_def btoa_def filter_encode_groups strip_padding_encode
        encode_nopad_in_alphabet decode_encode_nopad Let_def)
qed

lemma bytes_of_binary_string:
  "map (\<lambda>c. word_of_nat (of_char c) :: byte) (map (\<lambda>b. char_of (unat b)) buffer) = buffer"
proof (induction buffer)
  case Nil
  then show ?case by simp
next
  case (Cons a buffer)
  have "unat a < 256" using unsigned_less [of a, where ?'a = nat] by simp
  with Cons show ?case by simp
qed

lemma decode_encoded: "base64ToArrayBuffer (arrayBufferToBase64 buffer) = Some buffer"
  by (simp only: base64ToArrayBuffer_def arrayBufferToBase64_def atob_btoa option.case
      bytes_of_binary_string)

text \<open>
  Claim C10. For every byte buffer, decoding its base64 encoding gives the buffer back,
  byte for byte: \<open>base64ToArrayBuffer\<close> after \<open>arrayBufferToBase64\<close> is the identity (and,
  in particular, never throws), so an audio payload carried inside JSON survives the
  round trip unchanged.
\<close>

theorem base64_roundtrip: "base64ToArrayBuffer (arrayBufferToBase64 buffer) = Some buffer"
  by (rule decode_encoded)

theorem base64_roundtrip_witness:
  "arrayBufferToBase64 [72, 105] = ''SGk='' \<and> base64ToArrayBuffer ''SGk='' = Some [72, 105]"
proof -
  have e: "arrayBufferToBase64 [72, 105] = ''SGk=''"
    by (simp add: arrayBufferToBase64_def btoa_def sextet_char_def base64_alphabet_def)
  show ?thesis
    using base64_roundtrip [of "[72, 105]"] by (simp add: e)
qed

section \<open>Properties of the OpenAI realtime client\<close>

text \<open>
  Claim C8. For every audio buffer, \<open>sendAudio\<close> on a client in media-track (WebRTC) mode
  is a no-op: the client is unchanged, and with it the trace, so nothing is sent over the
  data channel or any other channel.
\<close>

theorem sendAudio_webrtc_noop:
  "connectionType c = WebRTC \<Longrightarrow> sendAudio audioData c = c"
  by (simp add: sendAudio_def)

theorem sendAudio_webrtc_noop_witness:
  "sendAudio [1, 2, 3, 4] ((new_client ''key'' WebRTC)\<lparr>dc := Some OPEN, status := Connected\<rparr>)
     = (new_client ''key'' WebRTC)\<lparr>dc := Some OPEN, status := Connected\<rparr>"
  using sendAudio_webrtc_noop [of "(new_client ''key'' WebRTC)\<lparr>dc := Some OPEN, status := Connected\<rparr>"
      "[1, 2, 3, 4]"]
  by (simp add: new_client_def)

text \<open>
  Claim C6. For every text, \<open>sendText\<close> on the message-stream client whose socket is open
  sends exactly two messages, adjacent and in this order: one
  \<open>conversation.item.create\<close> that carries the text as its \<open>input_text\<close>, then one
  \<open>response.create\<close>. Nothing else is done.
\<close>

theorem sendText_two_messages:
  assumes "connectionType c = WebSocket" and "ws c = Some OPEN"
  shows "sendText t c
    = c\<lparr>trace := trace c @
        [WsSend (JObj [(''type'', JStr ''conversation.item.create''),
           (''item'', JObj [(''type'', JStr ''message''), (''role'', JStr ''user''),
              (''content'', JArr [JObj [(''type'', JStr ''input_text''), (''text'', JStr t)]])])]),
         WsSend (JObj [(''type'', JStr ''response.create'')])]\<rparr>"
  using assms
  by (simp add: sendText_def send_def act_def conversation_item_create_def response_create_def)

theorem sendText_two_messages_witness:
  "trace (sendText ''hello'' ((new_client ''key'' WebSocket)\<lparr>ws := Some OPEN, status := Connected\<rparr>))
    = [WsSend (JObj [(''type'', JStr ''conversation.item.create''),
           (''item'', JObj [(''type'', JStr ''message''), (''role'', JStr ''user''),
              (''content'', JArr [JObj [(''type'', JStr ''input_text''), (''text'', JStr ''hello'')]])])]),
       WsSend (JObj [(''type'', JStr ''response.create'')])]"
  using sendText_two_messages
    [of "(new_client ''key'' WebSocket)\<lparr>ws := Some OPEN, status := Connected\<rparr>" "''hello''"]
  by (simp add: new_client_def)

text \<open>Without an open channel of its transport, \<open>send\<close> drops the message silently.\<close>

lemma sendText_dropped:
  "\<not> (connectionType c = WebRTC \<and> dc c = Some OPEN)
     \<Longrightarrow> \<not> (connectionType c = WebSocket \<and> ws c = Some OPEN)
     \<Longrightarrow> sendText t c = c"
  by (auto simp: sendText_def send_def)

section \<open>Connecting and disconnecting\<close>

text \<open>
  Claim C2. For every client whose status is Connecting or Connected, a further
  \<open>connect\<close> returns \<open>false\<close> and does nothing else. For the OpenAI client the result
  is the client itself: status, references and trace are unchanged, so no transport
  connect ran and no request was made. For the Gemini client the result is the client
  with one \<open>log\<close> diagnostic ("Already connected or connecting") appended to what it
  emitted: status and session are unchanged and \<open>client.live.connect\<close> is not called.
\<close>

theorem connect_rejected_when_active:
  "(status c = Connecting \<or> status c = Connected
      \<longrightarrow> connect model config rtc sock c = (False, c))
   \<and> (g_status g = Connecting \<or> g_status g = Connected
      \<longrightarrow> gemini_connect gmodel env g
            = (False, g\<lparr>g_trace := g_trace g @ [GEmit (GLog AlreadyConnectedOrConnecting)]\<rparr>))"
  by (auto simp: connect_def gemini_connect_def g_emit_def g_act_def)

theorem connect_rejected_when_active_witness:
  "connect ''gpt-realtime'' \<lparr>voice = None, instructions = None\<rparr>
      \<lparr>env_client_secrets = HttpOk ''ek'', env_peer_connection = True, env_user_media = Some 1,
       env_data_channel = True, env_offer = Some ''offer'', env_local_description = True,
       env_calls = HttpOk ''answer'', env_remote_description = True\<rparr>
      WsOpens ((new_client ''key'' WebRTC)\<lparr>status := Connecting\<rparr>)
     = (False, (new_client ''key'' WebRTC)\<lparr>status := Connecting\<rparr>)
   \<and> gemini_connect ''gemini-live'' LiveResolves (new_gemini_client\<lparr>g_status := Connecting\<rparr>)
     = (False, \<lparr>session = None, g_status = Connecting,
                g_trace = [GEmit (GLog AlreadyConnectedOrConnecting)]\<rparr>)"
  using connect_rejected_when_active [of "(new_client ''key'' WebRTC)\<lparr>status := Connecting\<rparr>"
      "''gpt-realtime''" "\<lparr>voice = None, instructions = None\<rparr>"
      "\<lparr>env_client_secrets = HttpOk ''ek'', env_peer_connection = True, env_user_media = Some 1,
       env_data_channel = True, env_offer = Some ''offer'', env_local_description = True,
       env_calls = HttpOk ''answer'', env_remote_description = True\<rparr>"
      WsOpens "new_gemini_client\<lparr>g_status := Connecting\<rparr>" "''gemini-live''" LiveResolves]
  by (simp add: new_client_def new_gemini_client_def)

text \<open>
  \<open>connectWebRTC\<close> throws exactly when a step after the credential fails; otherwise it
  returns \<open>true\<close> with the status Connected, whatever the token endpoint answered.
\<close>

lemma connectWebRTC_fails:
  "handshake_fails env \<Longrightarrow> \<exists>e. fst (connectWebRTC model config env c) = Inl e"
  by (auto simp: connectWebRTC_def getEphemeralKey_def Let_def handshake_fails_def
      split: prod.splits option.splits http_outcome.splits)

lemma connectWebRTC_succeeds:
  "\<not> handshake_fails env \<Longrightarrow>
     fst (connectWebRTC model config env c) = Inr True
     \<and> status (snd (connectWebRTC model config env c)) = Connected"
  by (auto simp: connectWebRTC_def getEphemeralKey_def Let_def handshake_fails_def emit_def act_def
      split: prod.splits option.splits http_outcome.splits)

text \<open>
  The requests of an attempt: the token request with the API key, and, when the
  handshake gets that far, the signalling request, whose credential is the issued key
  or, when issuance failed, the API key. A successful attempt emits \<open>open\<close> and nothing
  else.
\<close>

lemma requests_append: "requests (xs @ ys) = requests xs @ requests ys"
  by (induction xs rule: requests.induct) simp_all

lemma requests_replicate_AddTrack: "requests (replicate n AddTrack) = []"
  by (induction n) simp_all

lemma emitted_append: "emitted (xs @ ys) = emitted xs @ emitted ys"
  by (induction xs rule: emitted.induct) simp_all

lemma emitted_replicate_AddTrack: "emitted (replicate n AddTrack) = []"
  by (induction n) simp_all

lemma connectWebRTC_requests:
  "requests (trace (snd (connectWebRTC model config env c)))
     = requests (trace c)
       @ HttpPost ''https://api.openai.com/v1/realtime/client_secrets'' (apiKey c)
           (client_secrets_body model config)
       # (case env_offer env of
            None \<Rightarrow> []
          | Some sdp \<Rightarrow>
              if env_peer_connection env \<and> env_data_channel env \<and> env_local_description env
              then [HttpPost (''https://api.openai.com/v1/realtime/calls?model='' @ model)
                      (case env_client_secrets env of HttpOk v \<Rightarrow> v | _ \<Rightarrow> apiKey c) (JStr sdp)]
              else [])"
  by (auto simp: connectWebRTC_def getEphemeralKey_def Let_def emit_def act_def requests_append
      requests_replicate_AddTrack
      split: prod.splits option.splits http_outcome.splits)

lemma connectWebRTC_emits_open:
  "\<not> handshake_fails env \<Longrightarrow>
     emitted (drop (length (trace c)) (trace (snd (connectWebRTC model config env c)))) = [Open]"
  by (auto simp: connectWebRTC_def getEphemeralKey_def Let_def handshake_fails_def emit_def act_def
      emitted_append emitted_replicate_AddTrack
      split: prod.splits option.splits http_outcome.splits)

text \<open>The client's \<open>connect\<close> in terms of \<open>connectWebRTC\<close>.\<close>

lemma connect_webrtc_eq:
  assumes "status c = Disconnected" and "connectionType c = WebRTC"
  shows "connect model config env sock c
    = (if handshake_fails env
       then (False, (snd (connectWebRTC model config env (c\<lparr>status := Connecting\<rparr>)))
                      \<lparr>status := Disconnected\<rparr>)
       else (True, snd (connectWebRTC model config env (c\<lparr>status := Connecting\<rparr>))))"
proof (cases "handshake_fails env")
  case True
  then obtain e where "fst (connectWebRTC model config env (c\<lparr>status := Connecting\<rparr>)) = Inl e"
    using connectWebRTC_fails by blast
  with True assms show ?thesis
    by (auto simp: connect_def Let_def split: prod.splits sum.splits)
next
  case False
  then have "fst (connectWebRTC model config env (c\<lparr>status := Connecting\<rparr>)) = Inr True"
    using connectWebRTC_succeeds by blast
  with False assms show ?thesis
    by (auto simp: connect_def Let_def split: prod.splits sum.splits)
qed

lemma forward_openai_keeps_clients:
  "u_openaiClient (foldl forward_openai u events) = u_openaiClient u"
proof (induction events arbitrary: u)
  case Nil
  then show ?case by simp
next
  case (Cons e events)
  have "u_openaiClient (forward_openai u e) = u_openaiClient u"
    by (cases e) simp_all
  with Cons show ?case by simp
qed

text \<open>
  Claim C1, as the code has it. For every connect attempt on the media-track transport
  that starts from Disconnected: when a handshake step after the credential fails (the
  peer connection, the data channel, the offer, the local description, the signalling
  request or its answer, the remote description), the client's \<open>connect\<close> returns
  \<open>false\<close> and the client's status is Disconnected afterwards; when none of them fails,
  it returns \<open>true\<close> with the status Connected, also when credential issuance failed.
  The credential of the signalling request is the issued key, and the configured API key
  when issuance failed. The unified client's \<open>connect\<close>, on this client and from
  Disconnected, returns the same result, and on success its own status is Connected.
  (What its own status is after a failure is not part of this statement; see below.)
\<close>

theorem connect_webrtc_outcome:
  assumes "status c = Disconnected" and "connectionType c = WebRTC"
  shows "(handshake_fails env \<longrightarrow>
            fst (connect model config env sock c) = False
            \<and> status (snd (connect model config env sock c)) = Disconnected)
       \<and> (\<not> handshake_fails env \<longrightarrow>
            fst (connect model config env sock c) = True
            \<and> status (snd (connect model config env sock c)) = Connected)
       \<and> requests (trace (snd (connect model config env sock c)))
           = requests (trace c)
             @ HttpPost ''https://api.openai.com/v1/realtime/client_secrets'' (apiKey c)
                 (client_secrets_body model config)
             # (case env_offer env of
                  None \<Rightarrow> []
                | Some sdp \<Rightarrow>
                    if env_peer_connection env \<and> env_data_channel env \<and> env_local_description env
                    then [HttpPost (''https://api.openai.com/v1/realtime/calls?model='' @ model)
                            (case env_client_secrets env of HttpOk v \<Rightarrow> v | _ \<Rightarrow> apiKey c)
                            (JStr sdp)]
                    else [])
       \<and> (currentProvider u = ProviderOpenAI \<and> u_openaiClient u = Some c
            \<and> u_status u = Disconnected \<longrightarrow>
              fst (unified_connect gconnect model config env sock u) = Inr (\<not> handshake_fails env)
              \<and> u_openaiClient (snd (unified_connect gconnect model config env sock u))
                  = Some (snd (connect model config env sock c))
              \<and> (\<not> handshake_fails env \<longrightarrow>
                   u_status (snd (unified_connect gconnect model config env sock u)) = Connected))"
proof (intro conjI)
  let ?W = "connectWebRTC model config env (c\<lparr>status := Connecting\<rparr>)"
  note eq = connect_webrtc_eq [OF assms, of model config env sock]
  show "handshake_fails env \<longrightarrow>
          fst (connect model config env sock c) = False
          \<and> status (snd (connect model config env sock c)) = Disconnected"
    by (simp add: eq)
  show "\<not> handshake_fails env \<longrightarrow>
          fst (connect model config env sock c) = True
          \<and> status (snd (connect model config env sock c)) = Connected"
    using connectWebRTC_succeeds [of env model config "c\<lparr>status := Connecting\<rparr>"]
    by (simp add: eq)
  have tr: "trace (snd (connect model config env sock c)) = trace (snd ?W)"
    by (simp add: eq)
  show "requests (trace (snd (connect model config env sock c)))
           = requests (trace c)
             @ HttpPost ''https://api.openai.com/v1/realtime/client_secrets'' (apiKey c)
                 (client_secrets_body model config)
             # (case env_offer env of
                  None \<Rightarrow> []
                | Some sdp \<Rightarrow>
                    if env_peer_connection env \<and> env_data_channel env \<and> env_local_description env
                    then [HttpPost (''https://api.openai.com/v1/realtime/calls?model='' @ model)
                            (case env_client_secrets env of HttpOk v \<Rightarrow> v | _ \<Rightarrow> apiKey c)
                            (JStr sdp)]
                    else [])"
    unfolding tr using connectWebRTC_requests [of model config env "c\<lparr>status := Connecting\<rparr>"]
    by (simp split: option.splits http_outcome.splits)
  show "currentProvider u = ProviderOpenAI \<and> u_openaiClient u = Some c
            \<and> u_status u = Disconnected \<longrightarrow>
              fst (unified_connect gconnect model config env sock u) = Inr (\<not> handshake_fails env)
              \<and> u_openaiClient (snd (unified_connect gconnect model config env sock u))
                  = Some (snd (connect model config env sock c))
              \<and> (\<not> handshake_fails env \<longrightarrow>
                   u_status (snd (unified_connect gconnect model config env sock u)) = Connected)"
  proof (intro impI)
    assume u: "currentProvider u = ProviderOpenAI \<and> u_openaiClient u = Some c
            \<and> u_status u = Disconnected"
    obtain b c' where bc: "connect model config env sock c = (b, c')"
      by (cases "connect model config env sock c")
    have b: "b = (\<not> handshake_fails env)"
      using bc eq by (auto split: if_splits)
    have uc: "unified_connect gconnect model config env sock u
       = (Inr b, foldl forward_openai (u\<lparr>u_status := Connecting, u_openaiClient := Some c'\<rparr>)
                   (emitted (drop (length (trace c)) (trace c'))))"
      using u bc by (simp add: unified_connect_def Let_def)
    have ev: "\<not> handshake_fails env \<Longrightarrow> emitted (drop (length (trace c)) (trace c')) = [Open]"
    proof -
      assume ok: "\<not> handshake_fails env"
      then have "c' = snd ?W" using bc eq by simp
      then show ?thesis
        using connectWebRTC_emits_open [OF ok, of "c\<lparr>status := Connecting\<rparr>" model config]
        by simp
    qed
    show "fst (unified_connect gconnect model config env sock u) = Inr (\<not> handshake_fails env)
              \<and> u_openaiClient (snd (unified_connect gconnect model config env sock u))
                  = Some (snd (connect model config env sock c))
              \<and> (\<not> handshake_fails env \<longrightarrow>
                   u_status (snd (unified_connect gconnect model config env sock u)) = Connected)"
      using ev by (auto simp: uc b bc forward_openai_keeps_clients)
  qed
qed

theorem connect_webrtc_outcome_witness:
  "handshake_fails
     \<lparr>env_client_secrets = HttpOk ''ek'', env_peer_connection = True, env_user_media = Some 1,
      env_data_channel = True, env_offer = Some ''offer'', env_local_description = True,
      env_calls = HttpError ''Unauthorized'', env_remote_description = True\<rparr>
   \<and> fst (connect ''gpt-realtime'' \<lparr>voice = Some ''marin'', instructions = None\<rparr>
        \<lparr>env_client_secrets = HttpOk ''ek'', env_peer_connection = True, env_user_media = Some 1,
         env_data_channel = True, env_offer = Some ''offer'', env_local_description = True,
         env_calls = HttpError ''Unauthorized'', env_remote_description = True\<rparr>
        WsOpens (new_client ''key'' WebRTC)) = False
   \<and> status (snd (connect ''gpt-realtime'' \<lparr>voice = Some ''marin'', instructions = None\<rparr>
        \<lparr>env_client_secrets = HttpOk ''ek'', env_peer_connection = True, env_user_media = Some 1,
         env_data_channel = True, env_offer = Some ''offer'', env_local_description = True,
         env_calls = HttpError ''Unauthorized'', env_remote_description = True\<rparr>
        WsOpens (new_client ''key'' WebRTC))) = Disconnected
   \<and> \<not> handshake_fails
     \<lparr>env_client_secrets = HttpError ''Unauthorized'', env_peer_connection = True,
      env_user_media = Some 1, env_data_channel = True, env_offer = Some ''offer'',
      env_local_description = True, env_calls = HttpOk ''answer'', env_remote_description = True\<rparr>
   \<and> requests (trace (snd (connect ''gpt-realtime'' \<lparr>voice = Some ''marin'', instructions = None\<rparr>
        \<lparr>env_client_secrets = HttpError ''Unauthorized'', env_peer_connection = True,
         env_user_media = Some 1, env_data_channel = True, env_offer = Some ''offer'',
         env_local_description = True, env_calls = HttpOk ''answer'',
         env_remote_description = True\<rparr>
        WsOpens (new_client ''key'' WebRTC))))
      = [HttpPost ''https://api.openai.com/v1/realtime/client_secrets'' ''key''
           (client_secrets_body ''gpt-realtime'' \<lparr>voice = Some ''marin'', instructions = None\<rparr>),
         HttpPost ''https://api.openai.com/v1/realtime/calls?model=gpt-realtime'' ''key''
           (JStr ''offer'')]
   \<and> fst (unified_connect (\<lambda>g :: unit. ((None, [] :: unit adapter_event list), g))
          ''gpt-realtime'' \<lparr>voice = Some ''marin'', instructions = None\<rparr>
          \<lparr>env_client_secrets = HttpError ''Unauthorized'', env_peer_connection = True,
           env_user_media = Some 1, env_data_channel = True, env_offer = Some ''offer'',
           env_local_description = True, env_calls = HttpOk ''answer'',
           env_remote_description = True\<rparr>
          WsOpens
          \<lparr>u_geminiClient = None, u_openaiClient = Some (new_client ''key'' WebRTC),
           currentProvider = ProviderOpenAI, u_status = Disconnected, u_emitted = []\<rparr>) = Inr True
   \<and> u_status (snd (unified_connect (\<lambda>g :: unit. ((None, [] :: unit adapter_event list), g))
          ''gpt-realtime'' \<lparr>voice = Some ''marin'', instructions = None\<rparr>
          \<lparr>env_client_secrets = HttpError ''Unauthorized'', env_peer_connection = True,
           env_user_media = Some 1, env_data_channel = True, env_offer = Some ''offer'',
           env_local_description = True, env_calls = HttpOk ''answer'',
           env_remote_description = True\<rparr>
          WsOpens
          \<lparr>u_geminiClient = None, u_openaiClient = Some (new_client ''key'' WebRTC),
           currentProvider = ProviderOpenAI, u_status = Disconnected, u_emitted = []\<rparr>)) = Connected"
proof -
  have f: "handshake_fails
     \<lparr>env_client_secrets = HttpOk ''ek'', env_peer_connection = True, env_user_media = Some 1,
      env_data_channel = True, env_offer = Some ''offer'', env_local_description = True,
      env_calls = HttpError ''Unauthorized'', env_remote_description = True\<rparr>"
    by (simp add: handshake_fails_def)
  have g: "\<not> handshake_fails
     \<lparr>env_client_secrets = HttpError ''Unauthorized'', env_peer_connection = True,
      env_user_media = Some 1, env_data_channel = True, env_offer = Some ''offer'',
      env_local_description = True, env_calls = HttpOk ''answer'', env_remote_description = True\<rparr>"
    by (simp add: handshake_fails_def)
  have s: "status (new_client ''key'' WebRTC) = Disconnected"
    and t: "connectionType (new_client ''key'' WebRTC) = WebRTC"
    and k: "apiKey (new_client ''key'' WebRTC) = ''key''"
    and r: "trace (new_client ''key'' WebRTC) = []"
    by (simp_all add: new_client_def)
  have u: "currentProvider \<lparr>u_geminiClient = None :: unit option,
          u_openaiClient = Some (new_client ''key'' WebRTC),
          currentProvider = ProviderOpenAI, u_status = Disconnected,
          u_emitted = [] :: unit unified_event list\<rparr> = ProviderOpenAI
      \<and> u_openaiClient \<lparr>u_geminiClient = None :: unit option,
          u_openaiClient = Some (new_client ''key'' WebRTC),
          currentProvider = ProviderOpenAI, u_status = Disconnected,
          u_emitted = [] :: unit unified_event list\<rparr> = Some (new_client ''key'' WebRTC)
      \<and> u_status \<lparr>u_geminiClient = None :: unit option,
          u_openaiClient = Some (new_client ''key'' WebRTC),
          currentProvider = ProviderOpenAI, u_status = Disconnected,
          u_emitted = [] :: unit unified_event list\<rparr> = Disconnected"
    by simp
  note A = connect_webrtc_outcome [OF s t, of
        "\<lparr>env_client_secrets = HttpOk ''ek'', env_peer_connection = True, env_user_media = Some 1,
          env_data_channel = True, env_offer = Some ''offer'', env_local_description = True,
          env_calls = HttpError ''Unauthorized'', env_remote_description = True\<rparr>"
        "''gpt-realtime''" "\<lparr>voice = Some ''marin'', instructions = None\<rparr>" WsOpens]
  note B = connect_webrtc_outcome [OF s t, of
        "\<lparr>env_client_secrets = HttpError ''Unauthorized'', env_peer_connection = True,
          env_user_media = Some 1, env_data_channel = True, env_offer = Some ''offer'',
          env_local_description = True, env_calls = HttpOk ''answer'',
          env_remote_description = True\<rparr>"
        "''gpt-realtime''" "\<lparr>voice = Some ''marin'', instructions = None\<rparr>" WsOpens
        "\<lparr>u_geminiClient = None :: unit option,
          u_openaiClient = Some (new_client ''key'' WebRTC),
          currentProvider = ProviderOpenAI, u_status = Disconnected,
          u_emitted = [] :: unit unified_event list\<rparr>"
        "\<lambda>g :: unit. ((None, [] :: unit adapter_event list), g)"]
  have a: "fst (connect ''gpt-realtime'' \<lparr>voice = Some ''marin'', instructions = None\<rparr>
        \<lparr>env_client_secrets = HttpOk ''ek'', env_peer_connection = True, env_user_media = Some 1,
         env_data_channel = True, env_offer = Some ''offer'', env_local_description = True,
         env_calls = HttpError ''Unauthorized'', env_remote_description = True\<rparr>
        WsOpens (new_client ''key'' WebRTC)) = False
     \<and> status (snd (connect ''gpt-realtime'' \<lparr>voice = Some ''marin'', instructions = None\<rparr>
        \<lparr>env_client_secrets = HttpOk ''ek'', env_peer_connection = True, env_user_media = Some 1,
         env_data_channel = True, env_offer = Some ''offer'', env_local_description = True,
         env_calls = HttpError ''Unauthorized'', env_remote_description = True\<rparr>
        WsOpens (new_client ''key'' WebRTC))) = Disconnected"
    using A [THEN conjunct1] f by blast
  have b: "requests (trace (snd (connect ''gpt-realtime'' \<lparr>voice = Some ''marin'', instructions = None\<rparr>
        \<lparr>env_client_secrets = HttpError ''Unauthorized'', env_peer_connection = True,
         env_user_media = Some 1, env_data_channel = True, env_offer = Some ''offer'',
         env_local_description = True, env_calls = HttpOk ''answer'',
         env_remote_description = True\<rparr>
        WsOpens (new_client ''key'' WebRTC))))
      = [HttpPost ''https://api.openai.com/v1/realtime/client_secrets'' ''key''
           (client_secrets_body ''gpt-realtime'' \<lparr>voice = Some ''marin'', instructions = None\<rparr>),
         HttpPost ''https://api.openai.com/v1/realtime/calls?model=gpt-realtime'' ''key''
           (JStr ''offer'')]"
    using B [THEN conjunct2, THEN conjunct2, THEN conjunct1] by (simp add: k r)
  have c: "fst (unified_connect (\<lambda>g :: unit. ((None, [] :: unit adapter_event list), g))
          ''gpt-realtime'' \<lparr>voice = Some ''marin'', instructions = None\<rparr>
          \<lparr>env_client_secrets = HttpError ''Unauthorized'', env_peer_connection = True,
           env_user_media = Some 1, env_data_channel = True, env_offer = Some ''offer'',
           env_local_description = True, env_calls = HttpOk ''answer'',
           env_remote_description = True\<rparr>
          WsOpens
          \<lparr>u_geminiClient = None, u_openaiClient = Some (new_client ''key'' WebRTC),
           currentProvider = ProviderOpenAI, u_status = Disconnected, u_emitted = []\<rparr>) = Inr True
     \<and> u_status (snd (unified_connect (\<lambda>g :: unit. ((None, [] :: unit adapter_event list), g))
          ''gpt-realtime'' \<lparr>voice = Some ''marin'', instructions = None\<rparr>
          \<lparr>env_client_secrets = HttpError ''Unauthorized'', env_peer_connection = True,
           env_user_media = Some 1, env_data_channel = True, env_offer = Some ''offer'',
           env_local_description = True, env_calls = HttpOk ''answer'',
           env_remote_description = True\<rparr>
          WsOpens
          \<lparr>u_geminiClient = None, u_openaiClient = Some (new_client ''key'' WebRTC),
           currentProvider = ProviderOpenAI, u_status = Disconnected, u_emitted = []\<rparr>)) = Connected"
    using B [THEN conjunct2, THEN conjunct2, THEN conjunct2] u g by simp
  show ?thesis
    using f g a b c by blast
qed

text \<open>
  The claim as stated fails at two inputs. First: the token endpoint answers 401 and
  every later step succeeds; the attempt returns \<open>true\<close> and the status is Connected.
  Second: the credential is issued and the signalling request is answered 401; the
  attempt returns \<open>false\<close>, but no \<open>error\<close> event is emitted, the peer connection is
  still referenced and was not closed, and the unified client, which resets its status
  only when its client throws, is left in Connecting, having re-emitted nothing.
\<close>

theorem connect_webrtc_counterexample:
  "fst (connect ''gpt-realtime'' \<lparr>voice = Some ''marin'', instructions = None\<rparr>
        \<lparr>env_client_secrets = HttpError ''Unauthorized'', env_peer_connection = True,
         env_user_media = Some 1, env_data_channel = True, env_offer = Some ''offer'',
         env_local_description = True, env_calls = HttpOk ''answer'',
         env_remote_description = True\<rparr>
        WsOpens (new_client ''key'' WebRTC)) = True
   \<and> status (snd (connect ''gpt-realtime'' \<lparr>voice = Some ''marin'', instructions = None\<rparr>
        \<lparr>env_client_secrets = HttpError ''Unauthorized'', env_peer_connection = True,
         env_user_media = Some 1, env_data_channel = True, env_offer = Some ''offer'',
         env_local_description = True, env_calls = HttpOk ''answer'',
         env_remote_description = True\<rparr>
        WsOpens (new_client ''key'' WebRTC))) = Connected
   \<and> fst (connect ''gpt-realtime'' \<lparr>voice = Some ''marin'', instructions = None\<rparr>
        \<lparr>env_client_secrets = HttpOk ''ek'', env_peer_connection = True, env_user_media = Some 1,
         env_data_channel = True, env_offer = Some ''offer'', env_local_description = True,
         env_calls = HttpError ''Unauthorized'', env_remote_description = True\<rparr>
        WsOpens (new_client ''key'' WebRTC)) = False
   \<and> emitted_errors (trace (snd (connect ''gpt-realtime'' \<lparr>voice = Some ''marin'', instructions = None\<rparr>
        \<lparr>env_client_secrets = HttpOk ''ek'', env_peer_connection = True, env_user_media = Some 1,
         env_data_channel = True, env_offer = Some ''offer'', env_local_description = True,
         env_calls = HttpError ''Unauthorized'', env_remote_description = True\<rparr>
        WsOpens (new_client ''key'' WebRTC)))) = []
   \<and> pc (snd (connect ''gpt-realtime'' \<lparr>voice = Some ''marin'', instructions = None\<rparr>
        \<lparr>env_client_secrets = HttpOk ''ek'', env_peer_connection = True, env_user_media = Some 1,
         env_data_channel = True, env_offer = Some ''offer'', env_local_description = True,
         env_calls = HttpError ''Unauthorized'', env_remote_description = True\<rparr>
        WsOpens (new_client ''key'' WebRTC))) = Some RTCPeerConnection
   \<and> PcClose \<notin> set (trace (snd (connect ''gpt-realtime'' \<lparr>voice = Some ''marin'', instructions = None\<rparr>
        \<lparr>env_client_secrets = HttpOk ''ek'', env_peer_connection = True, env_user_media = Some 1,
         env_data_channel = True, env_offer = Some ''offer'', env_local_description = True,
         env_calls = HttpError ''Unauthorized'', env_remote_description = True\<rparr>
        WsOpens (new_client ''key'' WebRTC))))
   \<and> fst (unified_connect (\<lambda>g :: unit. ((None, [] :: unit adapter_event list), g))
          ''gpt-realtime'' \<lparr>voice = Some ''marin'', instructions = None\<rparr>
          \<lparr>env_client_secrets = HttpOk ''ek'', env_peer_connection = True, env_user_media = Some 1,
           env_data_channel = True, env_offer = Some ''offer'', env_local_description = True,
           env_calls = HttpError ''Unauthorized'', env_remote_description = True\<rparr>
          WsOpens
          \<lparr>u_geminiClient = None, u_openaiClient = Some (new_client ''key'' WebRTC),
           currentProvider = ProviderOpenAI, u_status = Disconnected, u_emitted = []\<rparr>) = Inr False
   \<and> u_status (snd (unified_connect (\<lambda>g :: unit. ((None, [] :: unit adapter_event list), g))
          ''gpt-realtime'' \<lparr>voice = Some ''marin'', instructions = None\<rparr>
          \<lparr>env_client_secrets = HttpOk ''ek'', env_peer_connection = True, env_user_media = Some 1,
           env_data_channel = True, env_offer = Some ''offer'', env_local_description = True,
           env_calls = HttpError ''Unauthorized'', env_remote_description = True\<rparr>
          WsOpens
          \<lparr>u_geminiClient = None, u_openaiClient = Some (new_client ''key'' WebRTC),
           currentProvider = ProviderOpenAI, u_status = Disconnected, u_emitted = []\<rparr>)) = Connecting
   \<and> u_emitted (snd (unified_connect (\<lambda>g :: unit. ((None, [] :: unit adapter_event list), g))
          ''gpt-realtime'' \<lparr>voice = Some ''marin'', instructions = None\<rparr>
          \<lparr>env_client_secrets = HttpOk ''ek'', env_peer_connection = True, env_user_media = Some 1,
           env_data_channel = True, env_offer = Some ''offer'', env_local_description = True,
           env_calls = HttpError ''Unauthorized'', env_remote_description = True\<rparr>
          WsOpens
          \<lparr>u_geminiClient = None, u_openaiClient = Some (new_client ''key'' WebRTC),
           currentProvider = ProviderOpenAI, u_status = Disconnected, u_emitted = []\<rparr>)) = []"
  by (simp add: unified_connect_def connect_def connectWebRTC_def getEphemeralKey_def new_client_def
      Let_def emit_def act_def)

text \<open>
  Claim C3, as the code has it. \<open>OpenAIRealtimeClient.disconnect\<close> returns \<open>true\<close> from
  every state, forces the status to Disconnected and closes each object it holds once
  (in the order peer connection, data channel, socket, audio element); a second call in
  a row changes nothing, closes nothing, and returns \<open>true\<close> again.
  \<open>GeminiClient.disconnect\<close> closes the session once, forces the status to Disconnected
  and returns \<open>true\<close> when there is a session; without a session it returns \<open>false\<close>
  and changes nothing; so a second call in a row returns \<open>false\<close> and changes nothing.
\<close>

theorem disconnect_twice:
  "fst (disconnect c) = True \<and> status (snd (disconnect c)) = Disconnected
   \<and> trace (snd (disconnect c))
       = trace c @ (if pc c \<noteq> None then [PcClose] else []) @ (if dc c \<noteq> None then [DcClose] else [])
           @ (if ws c \<noteq> None then [WsClose] else [])
           @ (if audioElement c \<noteq> None then [AudioPause] else [])
   \<and> disconnect (snd (disconnect c)) = (True, snd (disconnect c))
   \<and> (session g \<noteq> None \<longrightarrow>
        gemini_disconnect g
          = (True, g\<lparr>session := None, g_status := Disconnected,
                     g_trace := g_trace g @ [SessionClose, GEmit (GLog DisconnectedFromGemini)]\<rparr>))
   \<and> (session g = None \<longrightarrow> gemini_disconnect g = (False, g))
   \<and> gemini_disconnect (snd (gemini_disconnect g)) = (False, snd (gemini_disconnect g))"
  by (simp add: disconnect_def gemini_disconnect_def Let_def act_def g_emit_def g_act_def)

theorem disconnect_twice_witness:
  "snd (disconnect ((new_client ''key'' WebRTC)
          \<lparr>pc := Some RTCPeerConnection, dc := Some OPEN, audioElement := Some HTMLAudioElement,
           status := Connected\<rparr>))
     = (new_client ''key'' WebRTC)\<lparr>trace := [PcClose, DcClose, AudioPause]\<rparr>
   \<and> disconnect ((new_client ''key'' WebRTC)\<lparr>trace := [PcClose, DcClose, AudioPause]\<rparr>)
     = (True, (new_client ''key'' WebRTC)\<lparr>trace := [PcClose, DcClose, AudioPause]\<rparr>)
   \<and> gemini_disconnect (new_gemini_client\<lparr>session := Some SessionOk, g_status := Connected\<rparr>)
     = (True, new_gemini_client\<lparr>g_trace := [SessionClose, GEmit (GLog DisconnectedFromGemini)]\<rparr>)
   \<and> gemini_disconnect (new_gemini_client\<lparr>g_trace := [SessionClose, GEmit (GLog DisconnectedFromGemini)]\<rparr>)
     = (False, new_gemini_client\<lparr>g_trace := [SessionClose, GEmit (GLog DisconnectedFromGemini)]\<rparr>)"
  using disconnect_twice [of "(new_client ''key'' WebRTC)
          \<lparr>pc := Some RTCPeerConnection, dc := Some OPEN, audioElement := Some HTMLAudioElement,
           status := Connected\<rparr>"
        "new_gemini_client\<lparr>session := Some SessionOk, g_status := Connected\<rparr>"]
  by (simp add: new_client_def new_gemini_client_def disconnect_def gemini_disconnect_def Let_def
      act_def g_emit_def g_act_def)

text \<open>
  The claim as stated fails at two inputs: the second \<open>disconnect\<close> of the OpenAI client
  returns \<open>true\<close>, not the failure signal; and the Gemini client without a session whose
  status is Connecting (a connect attempt is awaiting the SDK) stays Connecting.
\<close>

theorem disconnect_counterexample:
  "fst (disconnect (snd (disconnect (new_client ''key'' WebRTC)))) = True
   \<and> gemini_disconnect (new_gemini_client\<lparr>g_status := Connecting\<rparr>)
       = (False, new_gemini_client\<lparr>g_status := Connecting\<rparr>)
   \<and> g_status (snd (gemini_disconnect (new_gemini_client\<lparr>g_status := Connecting\<rparr>))) = Connecting"
  by (simp add: disconnect_def gemini_disconnect_def new_client_def new_gemini_client_def Let_def)

section \<open>Properties of the inbound message mapping\<close>

text \<open>
  Claim C7. For every inbound message handled by the message-stream client (connection
  type websocket), the handler emits exactly the event of the mapping and does nothing
  else: nothing for \<open>session.created\<close> and \<open>session.updated\<close>; \<open>audio\<close> with the decoded
  bytes for \<open>response.audio.delta\<close> carrying a non-empty base64 payload; \<open>content\<close>
  (with \<open>message.text || message.delta\<close>) for \<open>response.text.delta\<close> and
  \<open>response.text.done\<close>; \<open>turncomplete\<close> for \<open>response.done\<close>; \<open>interrupted\<close> for
  \<open>response.cancelled\<close>; \<open>error\<close> (with the error's message, or "Unknown error") for
  \<open>error\<close>; and nothing for a message with any other tag or with none.
\<close>

theorem handleMessage_mapping:
  assumes "connectionType c = WebSocket"
  shows "(msg_type m = Some ''session.created'' \<or> msg_type m = Some ''session.updated''
            \<longrightarrow> handleMessage m c = Some c)
    \<and> (msg_type m = Some ''response.audio.delta'' \<and> msg_delta m = Some payload \<and> payload \<noteq> []
          \<and> base64ToArrayBuffer payload = Some audioData
            \<longrightarrow> handleMessage m c = Some (c\<lparr>trace := trace c @ [Emit (Audio audioData)]\<rparr>))
    \<and> (msg_type m = Some ''response.text.delta'' \<or> msg_type m = Some ''response.text.done''
            \<longrightarrow> handleMessage m c
                = Some (c\<lparr>trace := trace c @ [Emit (Content (js_or (msg_text m) (msg_delta m)))]\<rparr>))
    \<and> (msg_type m = Some ''response.done''
            \<longrightarrow> handleMessage m c = Some (c\<lparr>trace := trace c @ [Emit TurnComplete]\<rparr>))
    \<and> (msg_type m = Some ''response.cancelled''
            \<longrightarrow> handleMessage m c = Some (c\<lparr>trace := trace c @ [Emit Interrupted]\<rparr>))
    \<and> (msg_type m = Some ''error''
            \<longrightarrow> handleMessage m c
                = Some (c\<lparr>trace := trace c @
                    [Emit (Error (or_default (case msg_error m of None \<Rightarrow> None | Some e \<Rightarrow> e)
                                    ''Unknown error''))]\<rparr>))
    \<and> (msg_type m \<notin> {Some ''session.created'', Some ''session.updated'',
           Some ''response.audio.delta'', Some ''response.text.delta'', Some ''response.text.done'',
           Some ''response.done'', Some ''response.cancelled'', Some ''error''}
            \<longrightarrow> handleMessage m c = Some c)"
  using assms by (simp add: handleMessage_def emit_def act_def)

theorem handleMessage_mapping_witness:
  "handleMessage \<lparr>msg_type = Some ''response.audio.delta'', msg_delta = Some ''SGk='',
       msg_text = None, msg_error = None\<rparr>
     ((new_client ''key'' WebSocket)\<lparr>ws := Some OPEN, status := Connected\<rparr>)
   = Some ((new_client ''key'' WebSocket)
       \<lparr>ws := Some OPEN, status := Connected, trace := [Emit (Audio [72, 105])]\<rparr>)"
proof -
  have e: "arrayBufferToBase64 [72, 105] = ''SGk=''"
    by (simp add: arrayBufferToBase64_def btoa_def sextet_char_def base64_alphabet_def)
  have d: "base64ToArrayBuffer ''SGk='' = Some [72, 105]"
    using decode_encoded [of "[72, 105]"] by (simp add: e)
  have w: "connectionType ((new_client ''key'' WebSocket)\<lparr>ws := Some OPEN, status := Connected\<rparr>)
      = WebSocket"
    by (simp add: new_client_def)
  show ?thesis
    using handleMessage_mapping [OF w, of
        "\<lparr>msg_type = Some ''response.audio.delta'', msg_delta = Some ''SGk='',
          msg_text = None, msg_error = None\<rparr>" "''SGk=''" "[72, 105]"] d
    by (simp add: new_client_def)
qed

text \<open>
  What the mapping leaves out of \<open>response.audio.delta\<close>: a message without a payload,
  or with an empty one, emits nothing; a payload that is not base64 makes the handler
  throw, and \<open>onmessage\<close> drops the message.
\<close>

lemma handleMessage_audio_without_payload:
  "msg_type m = Some ''response.audio.delta'' \<Longrightarrow> \<not> truthy (msg_delta m)
     \<Longrightarrow> handleMessage m c = Some c"
  by (auto simp: handleMessage_def truthy_def split: option.splits)

lemma onmessage_audio_undecodable:
  "msg_type m = Some ''response.audio.delta'' \<Longrightarrow> connectionType c = WebSocket
     \<Longrightarrow> msg_delta m = Some payload \<Longrightarrow> payload \<noteq> []
     \<Longrightarrow> base64ToArrayBuffer payload = None
     \<Longrightarrow> handleMessage m c = None \<and> onmessage (Some m) c = c"
  by (simp add: handleMessage_def onmessage_def)

section \<open>Properties of recording\<close>

lemma send_chunks_ok:
  "send_chunks SessionOk chunks sent g
     = (sent + length chunks, g\<lparr>g_trace := g_trace g @ map SendRealtimeInput chunks\<rparr>)"
  by (induction chunks arbitrary: sent g) (simp_all add: g_act_def)

text \<open>
  When chunks are buffered at the stop (timer installed, Gemini selected, a session that
  accepts sends), \<open>stopRecording\<close> sends them in order, then the turn-complete message,
  and leaves the buffer empty.
\<close>

lemma stopRecording_flush_then_endTurn:
  assumes "sendIntervalRef a" and "selectedModel a = Gemini"
    and "geminiClientRef a = Some g" and "session g = Some SessionOk"
  shows "audioChunkBufferRef (stopRecording a) = []
    \<and> (audioChunkBufferRef a \<noteq> [] \<longrightarrow>
         geminiClientRef (stopRecording a)
           = Some (g\<lparr>g_trace := g_trace g
                @ map SendRealtimeInput (pcm_chunks (audioChunkBufferRef a))
                @ [GEmit (GLog (SentAudioChunks (length (audioChunkBufferRef a)))),
                   SendClientContent [] True, GEmit (GLog SentTurnComplete)]\<rparr>))"
  using assms
  by (auto simp: stopRecording_def Let_def addLog_def sendRealtimeInput_def send_chunks_ok
      endTurn_def g_emit_def g_act_def pcm_chunks_def)

lemma stopRecording_flush_then_endTurn_example:
  "stopRecording
     \<lparr>selectedModel = Gemini, isConnected = True, sendIntervalRef = True, audioChunkBufferRef = [[72, 105], [33]],
      geminiClientRef = Some \<lparr>session = Some SessionOk, g_status = Connected, g_trace = []\<rparr>,
      openaiClientRef = None, audioRecorderRef = True, isRecording = True, logs = []\<rparr>
   = \<lparr>selectedModel = Gemini, isConnected = True, sendIntervalRef = False, audioChunkBufferRef = [],
      geminiClientRef = Some \<lparr>session = Some SessionOk, g_status = Connected,
        g_trace = [SendRealtimeInput (InlineChunk ''audio/pcm;rate=16000'' (arrayBufferToBase64 [72, 105])),
                   SendRealtimeInput (InlineChunk ''audio/pcm;rate=16000'' (arrayBufferToBase64 [33])),
                   GEmit (GLog (SentAudioChunks 2)), SendClientContent [] True,
                   GEmit (GLog SentTurnComplete)]\<rparr>,
      openaiClientRef = None, audioRecorderRef = False, isRecording = False,
      logs = [SentFinalChunksToGemini 2, SentTurnCompleteToGemini, RecordingStopped]\<rparr>"
  using stopRecording_flush_then_endTurn [of
      "\<lparr>selectedModel = Gemini, isConnected = True, sendIntervalRef = True, audioChunkBufferRef = [[72, 105], [33]],
        geminiClientRef = Some \<lparr>session = Some SessionOk, g_status = Connected, g_trace = []\<rparr>,
        openaiClientRef = None, audioRecorderRef = True, isRecording = True, logs = []\<rparr>"
      "\<lparr>session = Some SessionOk, g_status = Connected, g_trace = []\<rparr>"]
  by (simp add: stopRecording_def Let_def addLog_def pcm_chunks_def)

text \<open>
  But nothing fills the buffer: \<open>startRecording\<close> clears it, the capture callback
  forwards every frame at once and the timer only ever empties it. So at the stop the
  buffer is empty, and \<open>stopRecording\<close> leaves the Gemini client as it is.
\<close>

lemma capture_keeps_buffer_empty:
  "audioChunkBufferRef a = [] \<Longrightarrow> audioChunkBufferRef (foldl capture a events) = []"
proof (induction events arbitrary: a)
  case Nil
  then show ?case by simp
next
  case (Cons e events)
  have "audioChunkBufferRef (capture a e) = []"
    using Cons.prems by (cases e) (simp_all add: on_audio_data_def interval_tick_def)
  then show ?case using Cons.IH by simp
qed

lemma startRecording_clears_buffer:
  "isConnected a \<Longrightarrow> audioChunkBufferRef (startRecording mic a) = []"
  by (simp add: startRecording_def Let_def addLog_def)

lemma stopRecording_empty_buffer:
  "audioChunkBufferRef a = [] \<Longrightarrow> geminiClientRef (stopRecording a) = geminiClientRef a"
  by (simp add: stopRecording_def Let_def addLog_def)

text \<open>
  Claim C5, evaluated on the code. For every recording session (\<open>startRecording\<close> while
  connected, then any sequence of captured frames and timer ticks), the chunk buffer is
  empty at the stop and \<open>stopRecording\<close> asks nothing of the Gemini client: its state and
  trace are the same before and after, so neither buffered audio nor the end-of-turn
  (\<open>turnComplete\<close>) message is sent. The claim requires the end-of-turn message.
\<close>

theorem stopRecording_sends_no_end_of_turn:
  assumes "isConnected a"
  shows "audioChunkBufferRef (foldl capture (startRecording mic a) events) = []
    \<and> geminiClientRef (stopRecording (foldl capture (startRecording mic a) events))
        = geminiClientRef (foldl capture (startRecording mic a) events)"
  using assms
  by (simp add: startRecording_clears_buffer capture_keeps_buffer_empty stopRecording_empty_buffer)

theorem stopRecording_sends_no_end_of_turn_witness:
  "geminiClientRef (stopRecording (foldl capture (startRecording True
     \<lparr>selectedModel = Gemini, isConnected = True, sendIntervalRef = False, audioChunkBufferRef = [],
      geminiClientRef = Some \<lparr>session = Some SessionOk, g_status = Connected, g_trace = []\<rparr>,
      openaiClientRef = None, audioRecorderRef = False, isRecording = False, logs = []\<rparr>)
     [Frame [1, 2], Tick, Frame [3, 4]]))
   = Some \<lparr>session = Some SessionOk, g_status = Connected,
       g_trace = [SendRealtimeInput (BlobChunk [1, 2] ''audio/pcm;rate=16000''),
                  GEmit (GLog (SentAudioChunks 1)),
                  SendRealtimeInput (BlobChunk [3, 4] ''audio/pcm;rate=16000''),
                  GEmit (GLog (SentAudioChunks 1))]\<rparr>"
proof -
  have c: "isConnected \<lparr>selectedModel = Gemini, isConnected = True, sendIntervalRef = False,
      audioChunkBufferRef = [],
      geminiClientRef = Some \<lparr>session = Some SessionOk, g_status = Connected, g_trace = []\<rparr>,
      openaiClientRef = None, audioRecorderRef = False, isRecording = False, logs = []\<rparr>"
    by simp
  show ?thesis
    using stopRecording_sends_no_end_of_turn [OF c, of True "[Frame [1, 2], Tick, Frame [3, 4]]"]
    by (simp add: startRecording_def Let_def addLog_def on_audio_data_def interval_tick_def
        sendRealtimeInput_def g_emit_def g_act_def)
qed

section \<open>Properties of the playback queue\<close>




text \<open>
  \<open>stop()\<close> itself does what the claim asks, where the component calls it (on disconnect
  and on unmount): in every run, what is started is a subsequence of what was queued at
  the beginning followed by what arrived; so after \<open>stop()\<close> the queue is empty and the
  buffers started from then on are among those that arrive afterwards.
\<close>

lemma arrivals_Cons: "arrivals (e # es) = arrivals [e] @ arrivals es"
  by (cases e) simp_all

lemma deliver_app_step:
  "\<exists>zs. map fst (started (deliver_app s e)) = map fst (started s) @ zs
     \<and> subseq (zs @ audioQueue (deliver_app s e)) (audioQueue s @ arrivals [e])"
proof (cases e)
  case (AudioEvent audioData)
  then show ?thesis
    by (cases "audioQueue s"; cases "isPlaying s") (simp_all add: addPCM16_def playQueue_def Let_def)
next
  case InterruptedEvent
  then show ?thesis by simp
next
  case StopEvent
  then show ?thesis by (simp add: stop_def)
next
  case SourceEnded
  then show ?thesis by (cases "audioQueue s") (simp_all add: playQueue_def)
qed

lemma run_app_Cons: "run_app s (e # es) = run_app (deliver_app s e) es"
  by (simp add: run_app_def)

lemma run_app_started:
  "\<exists>ys. map fst (started (run_app s es)) = map fst (started s) @ ys
     \<and> subseq (ys @ audioQueue (run_app s es)) (audioQueue s @ arrivals es)"
proof (induction es arbitrary: s)
  case Nil
  show ?case by (simp add: run_app_def)
next
  case (Cons e es)
  obtain zs where zs: "map fst (started (deliver_app s e)) = map fst (started s) @ zs"
    and sub1: "subseq (zs @ audioQueue (deliver_app s e)) (audioQueue s @ arrivals [e])"
    using deliver_app_step by blast
  obtain ys where ys: "map fst (started (run_app (deliver_app s e) es))
        = map fst (started (deliver_app s e)) @ ys"
    and sub2: "subseq (ys @ audioQueue (run_app (deliver_app s e) es))
        (audioQueue (deliver_app s e) @ arrivals es)"
    using Cons.IH by blast
  have "subseq (zs @ ys @ audioQueue (run_app (deliver_app s e) es))
          (zs @ audioQueue (deliver_app s e) @ arrivals es)"
    using sub2 by (simp add: list_emb_append_mono)
  moreover have "subseq ((zs @ audioQueue (deliver_app s e)) @ arrivals es)
          ((audioQueue s @ arrivals [e]) @ arrivals es)"
    using sub1 by (rule list_emb_append_mono) simp
  ultimately have "subseq (zs @ ys @ audioQueue (run_app (deliver_app s e) es))
          (audioQueue s @ arrivals [e] @ arrivals es)"
    using subseq_order.order_trans by fastforce
  then have "subseq ((zs @ ys) @ audioQueue (run_app s (e # es))) (audioQueue s @ arrivals (e # es))"
    by (simp add: run_app_Cons arrivals_Cons [of e es])
  moreover have "map fst (started (run_app s (e # es))) = map fst (started s) @ (zs @ ys)"
    by (simp add: run_app_Cons ys zs)
  ultimately show ?case by blast
qed

lemma stop_discards_queued:
  "audioQueue (deliver_app s StopEvent) = []
   \<and> (\<exists>ys. map fst (started (run_app (deliver_app s StopEvent) es)) = map fst (started s) @ ys
          \<and> subseq ys (arrivals es))"
proof -
  let ?s = "deliver_app s StopEvent"
  have q: "audioQueue ?s = []" and st: "started ?s = started s"
    by (simp_all add: stop_def)
  obtain ys where ys: "map fst (started (run_app ?s es)) = map fst (started ?s) @ ys"
    and sub: "subseq (ys @ audioQueue (run_app ?s es)) (audioQueue ?s @ arrivals es)"
    using run_app_started by blast
  have "subseq ys (ys @ audioQueue (run_app ?s es))"
    by (rule prefix_imp_subseq) simp
  with sub have "subseq ys (arrivals es)"
    unfolding q using subseq_order.order_trans by fastforce
  with q ys st show ?thesis by auto
qed

section \<open>Properties of the provider switch\<close>


text \<open>
  Claim C9. For every provider, \<open>switchProvider\<close> with the provider that is already current
  returns the unified client unchanged: no client is disconnected (both client states
  are as before), the current provider and the status are as before, and no
  \<open>providerChanged\<close> is emitted (the emitted events are as before).
\<close>

theorem switchProvider_same:
  "switchProvider gdisconnect (currentProvider u) u = u"
  by (simp add: switchProvider_def)

theorem switchProvider_same_witness:
  "switchProvider (\<lambda>g :: unit. ((True, [AdapterClose :: unit adapter_event]), g)) ProviderOpenAI
     \<lparr>u_geminiClient = Some (), u_openaiClient = Some (new_client ''key'' WebRTC),
      currentProvider = ProviderOpenAI, u_status = Connected, u_emitted = []\<rparr>
   = \<lparr>u_geminiClient = Some (), u_openaiClient = Some (new_client ''key'' WebRTC),
      currentProvider = ProviderOpenAI, u_status = Connected, u_emitted = []\<rparr>"
  using switchProvider_same [of "\<lambda>g :: unit. ((True, [AdapterClose :: unit adapter_event]), g)"
      "\<lparr>u_geminiClient = Some (), u_openaiClient = Some (new_client ''key'' WebRTC),
        currentProvider = ProviderOpenAI, u_status = Connected, u_emitted = []\<rparr>"]
  by simp

end
